theory Spec2Isabelle
  imports Complex_Main "HOL-Library.Word"
begin

section \<open>Strings\<close>

text \<open>
  JavaScript strings are modelled as \<^typ>\<open>string\<close>: one \<^typ>\<open>char\<close> is one UTF-16
  code unit below 256, so lengths and indices agree with the source. Strings with other
  code units are outside the model.
\<close>

text \<open>\<^verbatim>\<open>s.split(sep)\<close> for a one-character separator: the pieces between the
  occurrences of \<open>sep\<close>; always at least one piece.\<close>

fun split_on :: "char \<Rightarrow> string \<Rightarrow> string list" where
  "split_on sep [] = [[]]"
| "split_on sep (c # cs) =
     (if c = sep then [] # split_on sep cs
      else (case split_on sep cs of
              [] \<Rightarrow> [[c]]
            | p # ps \<Rightarrow> (c # p) # ps))"

text \<open>\<^verbatim>\<open>parts[i] ?? d\<close>: an index past the end reads \<open>undefined\<close>, which the
  nullish operator replaces by the default.\<close>

definition index_or :: "string list \<Rightarrow> nat \<Rightarrow> string \<Rightarrow> string" where
  "index_or parts i d = (if i < length parts then parts ! i else d)"

text \<open>\<^verbatim>\<open>s.padEnd(n, '0')\<close> and \<^verbatim>\<open>s.slice(0, n)\<close>.\<close>

definition padEnd :: "nat \<Rightarrow> char \<Rightarrow> string \<Rightarrow> string" where
  "padEnd n c s = s @ replicate (n - length s) c"

definition slice0 :: "nat \<Rightarrow> string \<Rightarrow> string" where
  "slice0 n s = take n s"

text \<open>\<^verbatim>\<open>s.replace(/^0+/, '')\<close>: the leading run of zeros is removed.\<close>

definition strip_leading_zeros :: "string \<Rightarrow> string" where
  "strip_leading_zeros s = dropWhile (\<lambda>c. c = CHR ''0'') s"

text \<open>Decimal printing of a natural number, as \<^verbatim>\<open>String(n)\<close> does for a
  non-negative integer, and of an integer, as \<^verbatim>\<open>BigInt.prototype.toString\<close>.\<close>

definition digit_char :: "nat \<Rightarrow> char" where
  "digit_char d = char_of (48 + d)"

fun string_of_nat :: "nat \<Rightarrow> string" where
  "string_of_nat n =
     (if n < 10 then [digit_char n]
      else string_of_nat (n div 10) @ [digit_char (n mod 10)])"

definition string_of_int :: "int \<Rightarrow> string" where
  "string_of_int i =
     (if i < 0 then CHR ''-'' # string_of_nat (nat (- i)) else string_of_nat (nat i))"

text \<open>Reading digits: the value of a character as a digit (hexadecimal letters
  included), and the value of a digit string in a radix.\<close>

definition digit_val :: "char \<Rightarrow> nat option" where
  "digit_val c =
     (let k = of_char c :: nat in
      if 48 \<le> k \<and> k \<le> 57 then Some (k - 48)
      else if 97 \<le> k \<and> k \<le> 102 then Some (k - 87)
      else if 65 \<le> k \<and> k \<le> 70 then Some (k - 55)
      else None)"

definition is_digit :: "char \<Rightarrow> bool" where
  "is_digit c = (let k = of_char c :: nat in 48 \<le> k \<and> k \<le> 57)"

definition nat_of_digits :: "string \<Rightarrow> nat" where
  "nat_of_digits ds = foldl (\<lambda>acc c. 10 * acc + (of_char c - 48)) 0 ds"

section \<open>Amount conversion\<close>

text \<open>
  \<^verbatim>\<open>PayBotClient.usdToBaseUnits\<close>:
  \<^verbatim>\<open>
    const parts = usdAmount.split('.');
    const whole = parts[0] ?? '0';
    const fraction = (parts[1] ?? '').padEnd(6, '0').slice(0, 6);
    return `${whole}${fraction}`.replace(/^0+/, '') || '0';
  \<close>
\<close>

definition usdToBaseUnits :: "string \<Rightarrow> string" where
  "usdToBaseUnits usdAmount =
     (let parts = split_on CHR ''.'' usdAmount;
          whole = index_or parts 0 ''0'';
          fraction = slice0 6 (padEnd 6 CHR ''0'' (index_or parts 1 ''''));
          stripped = strip_leading_zeros (whole @ fraction)
      in if stripped = [] then ''0'' else stripped)"

text \<open>A decimal amount is a run of digits, optionally followed by a point and the
  fractional digits.\<close>

definition all_digits :: "string \<Rightarrow> bool" where
  "all_digits s = list_all is_digit s"

text \<open>The canonical decimal numeral of a digit string: leading zeros removed,
  \<open>0\<close> when nothing is left.\<close>

definition canonical :: "string \<Rightarrow> string" where
  "canonical ds = (let s = strip_leading_zeros ds in if s = [] then ''0'' else s)"

text \<open>The amount \<open>w.f\<close> in base units, for at most six fractional digits:
  \<open>(w + f / 10 ^ length f) * 10 ^ 6\<close>.\<close>

definition scaled_amount :: "string \<Rightarrow> string \<Rightarrow> nat" where
  "scaled_amount w f = nat_of_digits w * 10 ^ 6 + nat_of_digits f * 10 ^ (6 - length f)"

section \<open>JavaScript values\<close>

text \<open>
  A value that is thrown, as \<^verbatim>\<open>getErrorMessage\<close> tells them apart: an instance of
  \<^verbatim>\<open>Error\<close> with its message, a string, or anything else. A call either
  returns a value or raises one of these; for an \<^verbatim>\<open>async\<close> function the two
  cases are the promise being fulfilled or rejected.
\<close>

datatype thrown = JsError string | ThrownString string | ThrownOther

datatype 'a completion = Returned 'a | Raised thrown

text \<open>
  \<^verbatim>\<open>getErrorMessage\<close>:
  \<^verbatim>\<open>
    if (error instanceof Error) return error.message;
    if (typeof error === 'string') return error;
    return 'Unknown error';
  \<close>
\<close>

fun getErrorMessage :: "thrown \<Rightarrow> string" where
  "getErrorMessage (JsError message) = message"
| "getErrorMessage (ThrownString s) = s"
| "getErrorMessage ThrownOther = ''Unknown error''"

text \<open>
  Numbers are IEEE doubles in the program. The model does not fix their arithmetic: the
  primitive operations on numbers the program uses are the fields of a record that every
  function takes, so every theorem holds for the arithmetic of the engine, whatever its
  rounding. \<open>'n\<close> is the type of numbers.
\<close>

record 'n numops =
  num_of_nat :: "nat \<Rightarrow> 'n"             \<comment> \<open>a literal such as \<^verbatim>\<open>0\<close>, \<^verbatim>\<open>300\<close>, \<^verbatim>\<open>1e6\<close>\<close>
  num_truthy :: "'n \<Rightarrow> bool"            \<comment> \<open>neither zero nor NaN\<close>
  num_isFinite :: "'n \<Rightarrow> bool"
  num_toString :: "'n \<Rightarrow> string"        \<comment> \<open>\<^verbatim>\<open>String(n)\<close>\<close>
  str_toNumber :: "string \<Rightarrow> 'n"        \<comment> \<open>\<^verbatim>\<open>Number(s)\<close>\<close>
  num_div :: "'n \<Rightarrow> 'n \<Rightarrow> 'n"            \<comment> \<open>\<^verbatim>\<open>a / b\<close>\<close>
  num_gt :: "'n \<Rightarrow> 'n \<Rightarrow> bool"           \<comment> \<open>\<^verbatim>\<open>a > b\<close>\<close>
  num_toFixed :: "'n \<Rightarrow> nat \<Rightarrow> string"   \<comment> \<open>\<^verbatim>\<open>n.toFixed(k)\<close>\<close>

text \<open>
  The values \<^verbatim>\<open>response.json()\<close> produces. An object is the list of its own
  properties in the order of their enumeration, with distinct keys, read with
  \<^const>\<open>map_of\<close>. \<^verbatim>\<open>undefined\<close> is not a JSON
  value: an expression that may be undefined has an \<^typ>\<open>'a option\<close> type, with
  \<^const>\<open>None\<close> for \<^verbatim>\<open>undefined\<close>.
\<close>

datatype 'n json =
    JNull
  | JBool bool
  | JNum 'n
  | JStr string
  | JArr "'n json list"
  | JObj "(string \<times> 'n json) list"

text \<open>Truthiness, of a value and of a possibly undefined value.\<close>

fun js_truthy :: "'n numops \<Rightarrow> 'n json \<Rightarrow> bool" where
  "js_truthy ops JNull = False"
| "js_truthy ops (JBool b) = b"
| "js_truthy ops (JNum n) = num_truthy ops n"
| "js_truthy ops (JStr s) = (s \<noteq> [])"
| "js_truthy ops (JArr xs) = True"
| "js_truthy ops (JObj kvs) = True"

fun opt_truthy :: "'n numops \<Rightarrow> 'n json option \<Rightarrow> bool" where
  "opt_truthy ops None = False"
| "opt_truthy ops (Some v) = js_truthy ops v"

text \<open>\<^verbatim>\<open>a ?? b\<close>: \<open>b\<close> when \<open>a\<close> is \<^verbatim>\<open>undefined\<close> or \<^verbatim>\<open>null\<close>.\<close>

fun nullish_or :: "'n json option \<Rightarrow> 'n json \<Rightarrow> 'n json" where
  "nullish_or None d = d"
| "nullish_or (Some JNull) d = d"
| "nullish_or (Some v) d = v"

text \<open>\<^verbatim>\<open>a ?? undefined\<close>.\<close>

fun nullish_or_undefined :: "'n json option \<Rightarrow> 'n json option" where
  "nullish_or_undefined None = None"
| "nullish_or_undefined (Some JNull) = None"
| "nullish_or_undefined (Some v) = Some v"

text \<open>
  Reading a property. The properties the program reads (\<^verbatim>\<open>error\<close>, \<^verbatim>\<open>code\<close>,
  \<^verbatim>\<open>amount\<close>, \<^verbatim>\<open>settlementToken\<close>, ...) are not members of a built-in prototype, so
  on a value other than an object the result is \<^verbatim>\<open>undefined\<close>. On \<^verbatim>\<open>null\<close> the
  read raises a \<^verbatim>\<open>TypeError\<close>; the wording of its message is the engine's.
\<close>

fun js_prop :: "'n json \<Rightarrow> string \<Rightarrow> 'n json option" where
  "js_prop (JObj kvs) k = map_of kvs k"
| "js_prop v k = None"

definition null_read_error :: "string \<Rightarrow> thrown" where
  "null_read_error k =
     JsError (''Cannot read properties of null (reading '' @ [CHR 0x27] @ k @ [CHR 0x27] @ '')'')"

definition js_get :: "'n json \<Rightarrow> string \<Rightarrow> thrown + 'n json option" where
  "js_get v k = (case v of JNull \<Rightarrow> Inl (null_read_error k) | _ \<Rightarrow> Inr (js_prop v k))"

text \<open>\<^verbatim>\<open>x?.k\<close> on a possibly undefined value.\<close>

fun opt_chain :: "'n json option \<Rightarrow> string \<Rightarrow> 'n json option" where
  "opt_chain None k = None"
| "opt_chain (Some v) k = js_prop v k"

text \<open>\<^verbatim>\<open>xs.join(sep)\<close> on strings.\<close>

fun join_with :: "string \<Rightarrow> string list \<Rightarrow> string" where
  "join_with sep [] = []"
| "join_with sep [x] = x"
| "join_with sep (x # y # ys) = x @ sep @ join_with sep (y # ys)"

text \<open>
  \<^verbatim>\<open>String(v)\<close>. A primitive prints as itself. An array prints its elements joined
  by commas, with \<^verbatim>\<open>null\<close> elements empty and the other elements converted in
  order. An object is converted by its \<^verbatim>\<open>toString\<close>, then its \<^verbatim>\<open>valueOf\<close>:
  a decoded object inherits both, and prints as \<^verbatim>\<open>[object Object]\<close>, unless it has
  a member \<^verbatim>\<open>toString\<close> of its own, which is a value and cannot be called; then
  neither gives a primitive (the inherited \<^verbatim>\<open>valueOf\<close> returns the object, a member
  \<^verbatim>\<open>valueOf\<close> of its own cannot be called either) and the conversion raises a
  \<^verbatim>\<open>TypeError\<close>, whose wording is the engine's.
\<close>

definition to_primitive_error :: thrown where
  "to_primitive_error = JsError ''Cannot convert object to primitive value''"

fun collect :: "(thrown + 'a) list \<Rightarrow> thrown + 'a list" where
  "collect [] = Inr []"
| "collect (Inl err # rs) = Inl err"
| "collect (Inr x # rs) = (case collect rs of Inl err \<Rightarrow> Inl err | Inr xs \<Rightarrow> Inr (x # xs))"

fun js_String :: "'n numops \<Rightarrow> 'n json \<Rightarrow> thrown + string" where
  "js_String ops JNull = Inr ''null''"
| "js_String ops (JBool b) = Inr (if b then ''true'' else ''false'')"
| "js_String ops (JNum n) = Inr (num_toString ops n)"
| "js_String ops (JStr s) = Inr s"
| "js_String ops (JArr xs) =
     (case collect (map (\<lambda>x. case x of JNull \<Rightarrow> Inr [] | _ \<Rightarrow> js_String ops x) xs) of
        Inl err \<Rightarrow> Inl err
      | Inr parts \<Rightarrow> Inr (join_with '','' parts))"
| "js_String ops (JObj kvs) =
     (case map_of kvs ''toString'' of
        None \<Rightarrow> Inr ''[object Object]''
      | Some member \<Rightarrow> Inl to_primitive_error)"

text \<open>\<^verbatim>\<open>String(v)\<close> inside a template literal, where \<open>v\<close> may be undefined.\<close>

fun opt_String :: "'n numops \<Rightarrow> 'n json option \<Rightarrow> thrown + string" where
  "opt_String ops None = Inr ''undefined''"
| "opt_String ops (Some v) = js_String ops v"

text \<open>
  \<^verbatim>\<open>Number(v)\<close>. An array or an object is converted by its \<^verbatim>\<open>valueOf\<close>, then
  its \<^verbatim>\<open>toString\<close>: the inherited \<^verbatim>\<open>valueOf\<close> returns the object itself, so
  the number is the number of the string, and the conversion raises where that of the
  string does.
\<close>

fun js_Number :: "'n numops \<Rightarrow> 'n json \<Rightarrow> thrown + 'n" where
  "js_Number ops JNull = Inr (num_of_nat ops 0)"
| "js_Number ops (JBool b) = Inr (num_of_nat ops (if b then 1 else 0))"
| "js_Number ops (JNum n) = Inr n"
| "js_Number ops (JStr s) = Inr (str_toNumber ops s)"
| "js_Number ops (JArr xs) =
     (case js_String ops (JArr xs) of Inl err \<Rightarrow> Inl err | Inr s \<Rightarrow> Inr (str_toNumber ops s))"
| "js_Number ops (JObj kvs) =
     (case js_String ops (JObj kvs) of Inl err \<Rightarrow> Inl err | Inr s \<Rightarrow> Inr (str_toNumber ops s))"

text \<open>
  \<^verbatim>\<open>JSON.stringify\<close>. Strings are quoted with the quotation mark, the backslash and
  the control characters escaped; a number that is not finite prints as \<^verbatim>\<open>null\<close>;
  a property whose value is undefined is left out (\<^const>\<open>None\<close> in \<open>js_object\<close>).
\<close>

definition hex_digit :: "nat \<Rightarrow> char" where
  "hex_digit d = (if d < 10 then char_of (48 + d) else char_of (87 + d))"

definition json_escape :: "char \<Rightarrow> string" where
  "json_escape c =
     (let k = of_char c :: nat in
      if c = CHR 0x22 then [CHR 0x5C, CHR 0x22]
      else if c = CHR 0x5C then [CHR 0x5C, CHR 0x5C]
      else if c = CHR 0x08 then [CHR 0x5C, CHR ''b'']
      else if c = CHR 0x0C then [CHR 0x5C, CHR ''f'']
      else if c = CHR 0x0A then [CHR 0x5C, CHR ''n'']
      else if c = CHR 0x0D then [CHR 0x5C, CHR ''r'']
      else if c = CHR 0x09 then [CHR 0x5C, CHR ''t'']
      else if k < 32 then [CHR 0x5C, CHR ''u'', CHR ''0'', CHR ''0'',
                           hex_digit (k div 16), hex_digit (k mod 16)]
      else [c])"

definition json_quote :: "string \<Rightarrow> string" where
  "json_quote s = [CHR 0x22] @ concat (map json_escape s) @ [CHR 0x22]"

fun JSON_stringify :: "'n numops \<Rightarrow> 'n json \<Rightarrow> string" where
  "JSON_stringify ops JNull = ''null''"
| "JSON_stringify ops (JBool b) = (if b then ''true'' else ''false'')"
| "JSON_stringify ops (JNum n) = (if num_isFinite ops n then num_toString ops n else ''null'')"
| "JSON_stringify ops (JStr s) = json_quote s"
| "JSON_stringify ops (JArr xs) =
     ''['' @ join_with '','' (map (JSON_stringify ops) xs) @ '']''"
| "JSON_stringify ops (JObj kvs) =
     ''{'' @ join_with '','' (map (\<lambda>(k, v). json_quote k @ '':'' @ JSON_stringify ops v) kvs) @ ''}''"

definition js_object :: "(string \<times> 'n json option) list \<Rightarrow> 'n json" where
  "js_object props =
     JObj (concat (map (\<lambda>(k, v). case v of None \<Rightarrow> [] | Some x \<Rightarrow> [(k, x)]) props))"

text \<open>
  \<^verbatim>\<open>BigInt(s)\<close> on a string: surrounding white space is ignored, the empty string
  is zero, a decimal numeral may carry a sign, a numeral with prefix \<^verbatim>\<open>0x\<close>,
  \<^verbatim>\<open>0o\<close> or \<^verbatim>\<open>0b\<close> may not; anything else raises a \<^verbatim>\<open>SyntaxError\<close>.
\<close>

definition is_space :: "char \<Rightarrow> bool" where
  "is_space c = (c \<in> {CHR '' '', CHR 0x09, CHR 0x0A, CHR 0x0B, CHR 0x0C, CHR 0x0D, CHR 0xA0})"

definition js_trim :: "string \<Rightarrow> string" where
  "js_trim s = rev (dropWhile is_space (rev (dropWhile is_space s)))"

definition nat_of_radix :: "nat \<Rightarrow> string \<Rightarrow> nat option" where
  "nat_of_radix r ds =
     (if ds \<noteq> [] \<and> list_all (\<lambda>c. case digit_val c of None \<Rightarrow> False | Some d \<Rightarrow> d < r) ds
      then Some (foldl (\<lambda>acc c. r * acc + (case digit_val c of None \<Rightarrow> 0 | Some d \<Rightarrow> d)) 0 ds)
      else None)"

definition bigint_syntax_error :: "string \<Rightarrow> thrown" where
  "bigint_syntax_error s = JsError (''Cannot convert '' @ s @ '' to a BigInt'')"

definition lower_char :: "char \<Rightarrow> char" where
  "lower_char c =
     (let k = of_char c :: nat in if 65 \<le> k \<and> k \<le> 90 then char_of (k + 32) else c)"

definition BigInt :: "string \<Rightarrow> thrown + int" where
  "BigInt s =
     (let t = js_trim s;
          unsigned = (\<lambda>r ds. case nat_of_radix r ds of
                                None \<Rightarrow> Inl (bigint_syntax_error s)
                              | Some n \<Rightarrow> Inr (int n))
      in case t of
           [] \<Rightarrow> Inr 0
         | c # cs \<Rightarrow>
             if c = CHR ''-'' then
               (case nat_of_radix 10 cs of
                  None \<Rightarrow> Inl (bigint_syntax_error s)
                | Some n \<Rightarrow> Inr (- int n))
             else if c = CHR ''+'' then unsigned 10 cs
             else if c = CHR ''0'' \<and> cs \<noteq> [] \<and> lower_char (hd cs) = CHR ''x'' then unsigned 16 (tl cs)
             else if c = CHR ''0'' \<and> cs \<noteq> [] \<and> lower_char (hd cs) = CHR ''o'' then unsigned 8 (tl cs)
             else if c = CHR ''0'' \<and> cs \<noteq> [] \<and> lower_char (hd cs) = CHR ''b'' then unsigned 2 (tl cs)
             else unsigned 10 t)"

section \<open>HTTP requests and responses\<close>

text \<open>
  Header lists, as the Fetch standard has them. \<^verbatim>\<open>Headers.get\<close> compares names
  without regard to case and joins the values of a repeated name. A value that enters a
  list is normalised first: leading and trailing HTTP white space (tab, line feed,
  carriage return, space) is removed. A name must be a token and a normalised value must
  contain no NUL, line feed or carriage return, or the operation raises a
  \<^verbatim>\<open>TypeError\<close>, whose wording is the engine's. A value must also have no code
  unit above 255, which no string of the model has. \<^verbatim>\<open>Headers.append\<close> adds the
  header at the end, under the spelling of the first header of that name if there is one;
  \<^verbatim>\<open>new Headers(init)\<close> appends the entries of \<open>init\<close> in order;
  \<^verbatim>\<open>Headers.set\<close> overwrites the first header of that name, removes the others, and
  appends when there is none.
\<close>

type_synonym headers = "(string \<times> string) list"

definition lower_string :: "string \<Rightarrow> string" where
  "lower_string s = map lower_char s"

definition same_header :: "string \<Rightarrow> string \<Rightarrow> bool" where
  "same_header a b = (lower_string a = lower_string b)"

definition headers_get :: "headers \<Rightarrow> string \<Rightarrow> string option" where
  "headers_get hs name =
     (let vs = map snd (filter (\<lambda>(k, v). same_header k name) hs)
      in if vs = [] then None else Some (join_with '', '' vs))"

definition is_http_whitespace :: "char \<Rightarrow> bool" where
  "is_http_whitespace c = (c \<in> {CHR 0x09, CHR 0x0A, CHR 0x0D, CHR '' ''})"

definition normalize_header_value :: "string \<Rightarrow> string" where
  "normalize_header_value v =
     rev (dropWhile is_http_whitespace (rev (dropWhile is_http_whitespace v)))"

definition valid_header_value :: "string \<Rightarrow> bool" where
  "valid_header_value v = list_all (\<lambda>c. c \<notin> {CHR 0x00, CHR 0x0A, CHR 0x0D}) v"

definition is_token_char :: "char \<Rightarrow> bool" where
  "is_token_char c =
     (let k = of_char c :: nat in
      (48 \<le> k \<and> k \<le> 57) \<or> (65 \<le> k \<and> k \<le> 90) \<or> (97 \<le> k \<and> k \<le> 122)
      \<or> c \<in> set [CHR 0x21, CHR 0x23, CHR 0x24, CHR 0x25, CHR 0x26, CHR 0x27, CHR 0x2A,
                   CHR 0x2B, CHR 0x2D, CHR 0x2E, CHR 0x5E, CHR 0x5F, CHR 0x60, CHR 0x7C,
                   CHR 0x7E])"

definition valid_header_name :: "string \<Rightarrow> bool" where
  "valid_header_name name = (name \<noteq> [] \<and> list_all is_token_char name)"

definition invalid_header_error :: "string \<Rightarrow> thrown" where
  "invalid_header_error name = JsError (''Invalid header: '' @ name)"

text \<open>The list in which the header \<open>name\<close> has been given the value \<open>v\<close>: what
  \<^verbatim>\<open>Headers.set\<close> leaves once the name and the normalised value are accepted.\<close>

fun replace_header :: "headers \<Rightarrow> string \<Rightarrow> string \<Rightarrow> headers" where
  "replace_header [] name v = [(name, v)]"
| "replace_header ((k, w) # hs) name v =
     (if same_header k name
      then (k, v) # filter (\<lambda>(k', w'). \<not> same_header k' name) hs
      else (k, w) # replace_header hs name v)"

definition Headers_set :: "headers \<Rightarrow> string \<Rightarrow> string \<Rightarrow> thrown + headers" where
  "Headers_set hs name v =
     (if valid_header_name name \<and> valid_header_value (normalize_header_value v)
      then Inr (replace_header hs name (normalize_header_value v))
      else Inl (invalid_header_error name))"

definition Headers_append :: "headers \<Rightarrow> string \<Rightarrow> string \<Rightarrow> thrown + headers" where
  "Headers_append hs name v =
     (if valid_header_name name \<and> valid_header_value (normalize_header_value v)
      then Inr (hs @ [(case find (\<lambda>(k, w). same_header k name) hs of
                         None \<Rightarrow> name
                       | Some (k, w) \<Rightarrow> k,
                       normalize_header_value v)])
      else Inl (invalid_header_error name))"

fun Headers_fill :: "headers \<Rightarrow> headers \<Rightarrow> thrown + headers" where
  "Headers_fill hs [] = Inr hs"
| "Headers_fill hs ((name, v) # rest) =
     (case Headers_append hs name v of
        Inl err \<Rightarrow> Inl err
      | Inr hs' \<Rightarrow> Headers_fill hs' rest)"

definition Headers_new :: "headers \<Rightarrow> thrown + headers" where
  "Headers_new entries = Headers_fill [] entries"

text \<open>
  The options of a request: the members the program sets or reads, and the remaining
  members of \<^verbatim>\<open>RequestInit\<close> as an uninterpreted list. A request is the pair of
  arguments of \<^verbatim>\<open>fetch\<close>.
\<close>

record request_init =
  init_method :: "string option"
  init_headers :: "headers option"
  init_body :: "string option"
  init_others :: "(string \<times> string) list"

record http_request =
  url :: string
  init :: "request_init option"

text \<open>
  A response: its status, its headers, and what \<^verbatim>\<open>response.json()\<close> does, which
  is to produce the decoded body or to raise when the body is not JSON.
\<close>

record 'n response =
  status :: nat
  resp_headers :: headers
  resp_json :: "thrown + 'n json"

definition response_ok :: "'n response \<Rightarrow> bool" where
  "response_ok r = (200 \<le> status r \<and> status r \<le> 299)"

text \<open>\<^verbatim>\<open>await response.json().catch(() => ({}))\<close>.\<close>

definition json_or_empty :: "'n response \<Rightarrow> 'n json" where
  "json_or_empty r = (case resp_json r of Inl e \<Rightarrow> JObj [] | Inr v \<Rightarrow> v)"

datatype 'n fetch_result = Rejected thrown | Resolved "'n response"

section \<open>The environment\<close>

text \<open>
  What the program obtains from outside: the transport behind \<^verbatim>\<open>fetch\<close>, the clock,
  the random source, and the signing library. The transport answers a request knowing the
  requests issued before it, so a server may answer the same request differently the
  second time; theorems quantify over every transport. The signing library
  (\<^verbatim>\<open>privateKeyToAccount\<close> and the account's \<^verbatim>\<open>signTypedData\<close>) is not part of
  the repository: both are parameters and both may raise.
\<close>

record eip712_domain =
  domain_name :: string
  domain_version :: string
  domain_chainId :: nat
  domain_verifyingContract :: string

text \<open>What \<^verbatim>\<open>EIP712_DOMAINS[network]\<close> finds when it finds something: a registered
  domain, or a member the table inherits, by its name.\<close>

datatype domain_ref = Registered eip712_domain | Inherited string

record transfer_message =
  msg_from :: string
  msg_to :: string
  msg_value :: int
  msg_validAfter :: int
  msg_validBefore :: int
  msg_nonce :: string

record typed_data =
  td_domain :: domain_ref
  td_types :: "(string \<times> (string \<times> string) list) list"
  td_primaryType :: string
  td_message :: transfer_message

record 'n env =
  transport :: "http_request list \<Rightarrow> http_request \<Rightarrow> 'n fetch_result"
  now_ms :: nat
  randomBytes :: "nat \<Rightarrow> 8 word list"
  privateKeyToAccount :: "string \<Rightarrow> thrown + string"
  signTypedData :: "string \<Rightarrow> typed_data \<Rightarrow> thrown + string"

section \<open>Network registry\<close>

text \<open>
  \<^verbatim>\<open>EIP712_DOMAINS\<close> and \<^verbatim>\<open>EIP3009_TYPES\<close>. The table is an object literal and
  \<^verbatim>\<open>EIP712_DOMAINS[network]\<close> a property read: it finds the two entries of the
  table, and for the name of a member that every object inherits it finds that member,
  which is a function (the prototype object for \<^verbatim>\<open>__proto__\<close>) and truthy. For any
  other name it is \<^verbatim>\<open>undefined\<close>.
\<close>

definition object_prototype_members :: "string list" where
  "object_prototype_members =
     [''constructor'', ''hasOwnProperty'', ''isPrototypeOf'', ''propertyIsEnumerable'',
      ''toLocaleString'', ''toString'', ''valueOf'', ''__proto__'', ''__defineGetter__'',
      ''__defineSetter__'', ''__lookupGetter__'', ''__lookupSetter__'']"

definition registered_domains :: "(string \<times> eip712_domain) list" where
  "registered_domains =
     [(''eip155:84532'',
       \<lparr>domain_name = ''USDC'', domain_version = ''2'', domain_chainId = 84532,
        domain_verifyingContract = ''0x036CbD53842c5426634e7929541eC2318f3dCF7e''\<rparr>),
      (''eip155:8453'',
       \<lparr>domain_name = ''USDC'', domain_version = ''2'', domain_chainId = 8453,
        domain_verifyingContract = ''0x833589fCD6eDb6E08f4c7C32D4f71b54bdA02913''\<rparr>)]"

definition EIP712_DOMAINS :: "string \<Rightarrow> domain_ref option" where
  "EIP712_DOMAINS chain =
     (case map_of registered_domains chain of
        Some d \<Rightarrow> Some (Registered d)
      | None \<Rightarrow>
          if chain \<in> set object_prototype_members then Some (Inherited chain) else None)"

definition EIP3009_TYPES :: "(string \<times> (string \<times> string) list) list" where
  "EIP3009_TYPES =
     [(''TransferWithAuthorization'',
       [(''from'', ''address''), (''to'', ''address''), (''value'', ''uint256''),
        (''validAfter'', ''uint256''), (''validBefore'', ''uint256''),
        (''nonce'', ''bytes32'')])]"

text \<open>\<^verbatim>\<open>generateEIP3009Nonce\<close>: \<^verbatim>\<open>`0x${randomBytes(32).toString('hex')}`\<close>.\<close>

definition hex_of_byte :: "8 word \<Rightarrow> string" where
  "hex_of_byte b = [hex_digit (unat b div 16), hex_digit (unat b mod 16)]"

definition generateEIP3009Nonce :: "'n env \<Rightarrow> string" where
  "generateEIP3009Nonce e = ''0x'' @ concat (map hex_of_byte (randomBytes e 32))"

section \<open>The client\<close>

record PayBotConfig =
  apiKey :: string
  facilitatorUrl :: "string option"
  botId :: string
  operatorId :: "string option"
  walletPrivateKey :: "string option"

text \<open>The configuration the constructor of \<^verbatim>\<open>PayBotClient\<close> stores, with the
  defaults filled in.\<close>

record client =
  client_apiKey :: string
  client_facilitatorUrl :: string
  client_botId :: string
  client_operatorId :: string
  client_walletPrivateKey :: "string option"

definition PayBotClient :: "'a PayBotConfig_scheme \<Rightarrow> client" where
  "PayBotClient config =
     \<lparr>client_apiKey = apiKey config,
      client_facilitatorUrl =
        (case facilitatorUrl config of None \<Rightarrow> ''http://localhost:3000'' | Some u \<Rightarrow> u),
      client_botId = botId config,
      client_operatorId =
        (case operatorId config of None \<Rightarrow> ''default-operator'' | Some p \<Rightarrow> p),
      client_walletPrivateKey = walletPrivateKey config\<rparr>"

record PaymentRequest =
  resource :: string
  amount :: string
  payTo :: string
  tokenContract :: "string option"
  network :: "string option"

text \<open>
  \<^verbatim>\<open>PaymentResult\<close>. The four amount fields are required members of the interface.
  The members the program copies from a decoded body without converting them
  (\<^verbatim>\<open>txHash\<close>, \<^verbatim>\<open>network\<close>, \<^verbatim>\<open>error\<close>, \<^verbatim>\<open>errorCode\<close>,
  \<^verbatim>\<open>errorDetails\<close>) hold whatever value the body had.
\<close>

record 'n PaymentResult =
  success :: bool
  txHash :: "'n json option"
  grossAmount :: string
  netAmount :: string
  commissionAmount :: string
  commissionRate :: 'n
  resultNetwork :: "'n json option"
  error :: "'n json option"
  errorCode :: "'n json option"
  errorDetails :: "'n json option"

subsection \<open>Building the payment payload\<close>

text \<open>
  The authorization that \<^verbatim>\<open>buildPaymentPayload\<close> signs and serialises: the local
  values \<^verbatim>\<open>account.address\<close>, \<^verbatim>\<open>payTo\<close>, \<^verbatim>\<open>value\<close>, \<^verbatim>\<open>validAfter\<close>,
  \<^verbatim>\<open>validBefore\<close>, \<^verbatim>\<open>nonce\<close> and \<^verbatim>\<open>signature\<close>.
\<close>

record signed_authorization =
  auth_message :: transfer_message
  auth_signature :: string

text \<open>
  The signing part of \<^verbatim>\<open>buildPaymentPayload\<close>, reached when a wallet key is set:
  \<^verbatim>\<open>
    const domain = EIP712_DOMAINS[network];
    if (!domain) { throw new Error(`No EIP-712 domain for network: ${network}`); }
    const account = privateKeyToAccount(this.config.walletPrivateKey);
    const nonce = generateEIP3009Nonce();
    const nowSeconds = BigInt(Math.floor(Date.now() / 1000));
    const validAfter = 0n;
    const validBefore = nowSeconds + 3600n; // 1 hour from now
    const value = BigInt(amountBaseUnits);
    const signature = await account.signTypedData({ domain, types: EIP3009_TYPES,
      primaryType: 'TransferWithAuthorization',
      message: { from: account.address, to: payTo, value, validAfter, validBefore, nonce } });
  \<close>
\<close>

definition signAuthorization ::
  "'n env \<Rightarrow> string \<Rightarrow> string \<Rightarrow> string \<Rightarrow> string \<Rightarrow> signed_authorization completion" where
  "signAuthorization e key payTo' amountBaseUnits network' =
     (case EIP712_DOMAINS network' of
        None \<Rightarrow> Raised (JsError (''No EIP-712 domain for network: '' @ network'))
      | Some domain \<Rightarrow>
          (case privateKeyToAccount e key of
             Inl err \<Rightarrow> Raised err
           | Inr address \<Rightarrow>
               (let nonce = generateEIP3009Nonce e;
                    nowSeconds = int (now_ms e div 1000);
                    validAfter = 0;
                    validBefore = nowSeconds + 3600
                in case BigInt amountBaseUnits of
                     Inl err \<Rightarrow> Raised err
                   | Inr val \<Rightarrow>
                       (let message = \<lparr>msg_from = address, msg_to = payTo', msg_value = val,
                                       msg_validAfter = validAfter,
                                       msg_validBefore = validBefore, msg_nonce = nonce\<rparr>
                        in case signTypedData e key
                                  \<lparr>td_domain = domain, td_types = EIP3009_TYPES,
                                   td_primaryType = ''TransferWithAuthorization'',
                                   td_message = message\<rparr> of
                             Inl err \<Rightarrow> Raised err
                           | Inr signature \<Rightarrow>
                               Returned \<lparr>auth_message = message,
                                         auth_signature = signature\<rparr>))))"

text \<open>
  The object passed to \<^verbatim>\<open>JSON.stringify\<close> at the end of
  \<^verbatim>\<open>buildPaymentPayload\<close>: every integer is its decimal string.
\<close>

definition authorization_json :: "signed_authorization \<Rightarrow> 'n json" where
  "authorization_json a =
     (let m = auth_message a in
      JObj [(''from'', JStr (msg_from m)),
            (''to'', JStr (msg_to m)),
            (''value'', JStr (string_of_int (msg_value m))),
            (''validAfter'', JStr (string_of_int (msg_validAfter m))),
            (''validBefore'', JStr (string_of_int (msg_validBefore m))),
            (''nonce'', JStr (msg_nonce m)),
            (''signature'', JStr (auth_signature a))])"

text \<open>
  \<^verbatim>\<open>buildPaymentPayload\<close>. An unset key and the empty string are both falsy and
  give the mock payload \<^verbatim>\<open>`payer:${botId}`\<close>.
\<close>

definition key_configured :: "client \<Rightarrow> bool" where
  "key_configured c =
     (case client_walletPrivateKey c of None \<Rightarrow> False | Some key \<Rightarrow> key \<noteq> [])"

definition buildPaymentPayload ::
  "'n numops \<Rightarrow> client \<Rightarrow> 'n env \<Rightarrow> string \<Rightarrow> string \<Rightarrow> string \<Rightarrow> string completion" where
  "buildPaymentPayload ops c e payTo' amountBaseUnits network' =
     (case client_walletPrivateKey c of
        None \<Rightarrow> Returned (''payer:'' @ client_botId c)
      | Some key \<Rightarrow>
          if key = [] then Returned (''payer:'' @ client_botId c)
          else (case signAuthorization e key payTo' amountBaseUnits network' of
                  Raised err \<Rightarrow> Raised err
                | Returned a \<Rightarrow> Returned (JSON_stringify ops (authorization_json a))))"

subsection \<open>Executing a payment\<close>

text \<open>The payload wrapper and the requirements block, sent to both endpoints.\<close>

definition payload_wrapper :: "'n numops \<Rightarrow> PaymentRequest \<Rightarrow> string \<Rightarrow> 'n json" where
  "payload_wrapper ops request payloadString =
     JObj [(''x402Version'', JNum (num_of_nat ops 1)),
           (''resource'', JStr (resource request)),
           (''accepted'', JBool True),
           (''payload'', JStr payloadString)]"

definition requirements_block ::
  "'n numops \<Rightarrow> PaymentRequest \<Rightarrow> string \<Rightarrow> string \<Rightarrow> string \<Rightarrow> 'n json" where
  "requirements_block ops request network' tokenContract' amountBaseUnits =
     JObj [(''scheme'', JStr ''exact''),
           (''network'', JStr network'),
           (''asset'', JStr (network' @ ''/erc20:'' @ tokenContract')),
           (''amount'', JStr amountBaseUnits),
           (''payTo'', JStr (payTo request)),
           (''maxTimeoutSeconds'', JNum (num_of_nat ops 300))]"

definition post_json :: "client \<Rightarrow> string \<Rightarrow> string \<Rightarrow> http_request" where
  "post_json c path body =
     \<lparr>url = client_facilitatorUrl c @ path,
      init = Some \<lparr>init_method = Some ''POST'',
                   init_headers = Some [(''Content-Type'', ''application/json''),
                                        (''X-API-Key'', client_apiKey c)],
                   init_body = Some body,
                   init_others = []\<rparr>\<rparr>"

text \<open>The request to \<^verbatim>\<open>/verify\<close>.\<close>

definition verify_request ::
  "'n numops \<Rightarrow> client \<Rightarrow> PaymentRequest \<Rightarrow> string \<Rightarrow> string \<Rightarrow> string \<Rightarrow> string \<Rightarrow> http_request" where
  "verify_request ops c request network' tokenContract' amountBaseUnits payloadString =
     post_json c ''/verify''
       (JSON_stringify ops
          (JObj [(''botId'', JStr (client_botId c)),
                 (''payload'', payload_wrapper ops request payloadString),
                 (''requirements'',
                  requirements_block ops request network' tokenContract' amountBaseUnits)]))"

text \<open>The request to \<^verbatim>\<open>/settle\<close>: the requirements are the facilitator's
  \<^verbatim>\<open>modifiedRequirements\<close> unless nullish, and the commission is the one of the
  verify response, left out when undefined.\<close>

definition settle_request ::
  "'n numops \<Rightarrow> client \<Rightarrow> PaymentRequest \<Rightarrow> string \<Rightarrow> string \<Rightarrow> string \<Rightarrow> string \<Rightarrow>
   'n json \<Rightarrow> 'n json option \<Rightarrow> http_request" where
  "settle_request ops c request network' tokenContract' amountBaseUnits payloadString
       verifyData settlementToken =
     post_json c ''/settle''
       (JSON_stringify ops
          (js_object
             [(''botId'', Some (JStr (client_botId c))),
              (''settlementToken'', settlementToken),
              (''payload'', Some (payload_wrapper ops request payloadString)),
              (''requirements'',
               Some (nullish_or (js_prop verifyData ''modifiedRequirements'')
                       (requirements_block ops request network' tokenContract' amountBaseUnits))),
              (''commission'', js_prop verifyData ''commission'')]))"

text \<open>The result every failing path returns, up to the error members.\<close>

definition failure ::
  "'n numops \<Rightarrow> 'n json option \<Rightarrow> 'n json option \<Rightarrow> 'n json option \<Rightarrow> 'n PaymentResult" where
  "failure ops err code details =
     \<lparr>success = False, txHash = None,
      grossAmount = ''0'', netAmount = ''0'', commissionAmount = ''0'',
      commissionRate = num_of_nat ops 0,
      resultNetwork = None,
      error = err, errorCode = code, errorDetails = details\<rparr>"

text \<open>
  The result for a response whose status is not a success, with the decoded error body
  \<open>errorData\<close> and the message to use when the body has none:
  \<^verbatim>\<open>
    error: (errorData.error as string) ?? `HTTP ${response.status}`,
    errorCode: (errorData.code as string) ?? undefined,
    errorDetails: errorData.details as Record<string, unknown> | undefined,
  \<close>
  Reading a property of \<^verbatim>\<open>null\<close> raises.
\<close>

definition http_failure ::
  "'n numops \<Rightarrow> 'n json \<Rightarrow> string \<Rightarrow> 'n PaymentResult completion" where
  "http_failure ops errorData fallback =
     (case js_get errorData ''error'' of
        Inl err \<Rightarrow> Raised err
      | Inr e \<Rightarrow>
          Returned (failure ops (Some (nullish_or e (JStr fallback)))
                      (nullish_or_undefined (js_prop errorData ''code''))
                      (js_prop errorData ''details'')))"

text \<open>
  The result of the successful path, from the commission of the verify response and the
  transaction and network of the settle response:
  \<^verbatim>\<open>
    success: true,
    txHash: settleData.transaction as string | undefined,
    grossAmount: String(commissionData?.grossAmount ?? '0'),
    netAmount: String(commissionData?.netAmount ?? '0'),
    commissionAmount: String(commissionData?.commissionAmount ?? '0'),
    commissionRate: Number(commissionData?.commissionRate ?? 0),
    network: settleData.network as string | undefined,
  \<close>
  The conversions are made in this order, and the first that raises ends the evaluation.
\<close>

definition success_result ::
  "'n numops \<Rightarrow> 'n json option \<Rightarrow> 'n json option \<Rightarrow> 'n json option \<Rightarrow>
   'n PaymentResult completion" where
  "success_result ops commissionData transaction network' =
     (case js_String ops (nullish_or (opt_chain commissionData ''grossAmount'') (JStr ''0'')) of
        Inl err \<Rightarrow> Raised err
      | Inr gross \<Rightarrow>
     (case js_String ops (nullish_or (opt_chain commissionData ''netAmount'') (JStr ''0'')) of
        Inl err \<Rightarrow> Raised err
      | Inr net \<Rightarrow>
     (case js_String ops
             (nullish_or (opt_chain commissionData ''commissionAmount'') (JStr ''0'')) of
        Inl err \<Rightarrow> Raised err
      | Inr commission \<Rightarrow>
     (case js_Number ops
             (nullish_or (opt_chain commissionData ''commissionRate'')
                (JNum (num_of_nat ops 0))) of
        Inl err \<Rightarrow> Raised err
      | Inr rate \<Rightarrow>
          Returned \<lparr>success = True, txHash = transaction,
                    grossAmount = gross, netAmount = net, commissionAmount = commission,
                    commissionRate = rate, resultNetwork = network',
                    error = None, errorCode = None, errorDetails = None\<rparr>))))"

text \<open>
  The body of the \<^verbatim>\<open>try\<close> block of \<^verbatim>\<open>PayBotClient.pay\<close>, with the requests it
  issued, in order. \<open>hist\<close> are the requests issued before the call.
\<close>

definition pay_try ::
  "'n numops \<Rightarrow> client \<Rightarrow> 'n env \<Rightarrow> http_request list \<Rightarrow> PaymentRequest \<Rightarrow>
   'n PaymentResult completion \<times> http_request list" where
  "pay_try ops c e hist request =
     (let network' = (case network request of None \<Rightarrow> ''eip155:84532'' | Some n \<Rightarrow> n);
          tokenContract' = (case tokenContract request of
                              None \<Rightarrow> ''0x036CbD53842c5426634e7929541eC2318f3dCF7e''
                            | Some t \<Rightarrow> t);
          amountBaseUnits = usdToBaseUnits (amount request)
      in case buildPaymentPayload ops c e (payTo request) amountBaseUnits network' of
           Raised err \<Rightarrow> (Raised err, [])
         | Returned payloadString \<Rightarrow>
             (let q1 = verify_request ops c request network' tokenContract' amountBaseUnits
                         payloadString
              in case transport e hist q1 of
                   Rejected err \<Rightarrow> (Raised err, [q1])
                 | Resolved response \<Rightarrow>
                     if \<not> response_ok response then
                       (http_failure ops (json_or_empty response)
                          (''HTTP '' @ string_of_nat (status response)), [q1])
                     else
                       (case resp_json response of
                          Inl err \<Rightarrow> (Raised err, [q1])
                        | Inr verifyData \<Rightarrow>
                            (case js_get verifyData ''settlementToken'' of
                               Inl err \<Rightarrow> (Raised err, [q1])
                             | Inr settlementToken \<Rightarrow>
                                 if \<not> opt_truthy ops settlementToken then
                                   (Returned (failure ops
                                      (Some (JStr ''Verify response missing settlement token''))
                                      None None), [q1])
                                 else
                                   (let q2 = settle_request ops c request network' tokenContract'
                                               amountBaseUnits payloadString verifyData
                                               settlementToken
                                    in case transport e (hist @ [q1]) q2 of
                                         Rejected err \<Rightarrow> (Raised err, [q1, q2])
                                       | Resolved settleResponse \<Rightarrow>
                                           if \<not> response_ok settleResponse then
                                             (http_failure ops (json_or_empty settleResponse)
                                                (''Settlement HTTP '' @
                                                   string_of_nat (status settleResponse)),
                                              [q1, q2])
                                           else
                                             (case resp_json settleResponse of
                                                Inl err \<Rightarrow> (Raised err, [q1, q2])
                                              | Inr settleData \<Rightarrow>
                                                  (case js_get settleData ''transaction'' of
                                                     Inl err \<Rightarrow> (Raised err, [q1, q2])
                                                   | Inr transaction \<Rightarrow>
                                                       (success_result ops
                                                          (js_prop verifyData ''commission'')
                                                          transaction
                                                          (js_prop settleData ''network''),
                                                        [q1, q2]))))))))"

text \<open>
  \<^verbatim>\<open>PayBotClient.pay\<close>: whatever the body raises is caught and becomes a failure
  result whose message is \<^verbatim>\<open>getErrorMessage(error)\<close>.
\<close>

definition pay ::
  "'n numops \<Rightarrow> client \<Rightarrow> 'n env \<Rightarrow> http_request list \<Rightarrow> PaymentRequest \<Rightarrow>
   'n PaymentResult completion \<times> http_request list" where
  "pay ops c e hist request =
     (case pay_try ops c e hist request of
        (Returned r, reqs) \<Rightarrow> (Returned r, reqs)
      | (Raised err, reqs) \<Rightarrow>
          (Returned (failure ops (Some (JStr (getErrorMessage err))) None None), reqs))"

section \<open>The auto-pay interceptor\<close>

record X402HandlerConfig = PayBotConfig +
  maxAutoPay :: "string option"
  handlerNetwork :: "string option"

text \<open>The payment terms \<^verbatim>\<open>parse402Response\<close> extracts.\<close>

record payment_terms =
  termsAmount :: string
  termsPayTo :: string

text \<open>
  \<^verbatim>\<open>parse402Response\<close>. The whole body is inside \<^verbatim>\<open>try { ... } catch { return null }\<close>:
  a body that does not decode, a body that decodes to \<^verbatim>\<open>null\<close> (whose properties
  cannot be read) and a value that \<^verbatim>\<open>String\<close> cannot convert all give
  \<^verbatim>\<open>null\<close>, here \<^const>\<open>None\<close>.
\<close>

definition parse402Response :: "'n numops \<Rightarrow> 'n response \<Rightarrow> string \<Rightarrow> payment_terms option" where
  "parse402Response ops response url' =
     (case resp_json response of
        Inl err \<Rightarrow> None
      | Inr body \<Rightarrow>
          (case js_get body ''paymentRequirements'' of
             Inl err \<Rightarrow> None
           | Inr paymentRequirements \<Rightarrow>
               if opt_truthy ops paymentRequirements then
                 (case js_String ops
                         (nullish_or (opt_chain paymentRequirements ''amount'') (JStr ''0'')) of
                    Inl err \<Rightarrow> None
                  | Inr amount' \<Rightarrow>
                      (case js_String ops
                              (nullish_or (opt_chain paymentRequirements ''payTo'') (JStr [])) of
                         Inl err \<Rightarrow> None
                       | Inr payTo' \<Rightarrow> Some \<lparr>termsAmount = amount', termsPayTo = payTo'\<rparr>))
               else if opt_truthy ops (js_prop body ''amount'') \<and>
                       opt_truthy ops (js_prop body ''payTo'') then
                 (case opt_String ops (js_prop body ''amount'') of
                    Inl err \<Rightarrow> None
                  | Inr amount' \<Rightarrow>
                      (case opt_String ops (js_prop body ''payTo'') of
                         Inl err \<Rightarrow> None
                       | Inr payTo' \<Rightarrow> Some \<lparr>termsAmount = amount', termsPayTo = payTo'\<rparr>))
               else
                 (case (headers_get (resp_headers response) ''X-Payment-Amount'',
                        headers_get (resp_headers response) ''X-Payment-Address'') of
                    (Some headerAmount, Some headerPayTo) \<Rightarrow>
                      if headerAmount \<noteq> [] \<and> headerPayTo \<noteq> []
                      then Some \<lparr>termsAmount = headerAmount, termsPayTo = headerPayTo\<rparr>
                      else None
                  | _ \<Rightarrow> None)))"

text \<open>
  What the interceptor does, as a spy on \<^verbatim>\<open>fetch\<close> and on \<^verbatim>\<open>client.pay\<close>
  would record it.
\<close>

datatype event = EvFetch http_request | EvPay PaymentRequest

text \<open>The error raised when the amount exceeds the ceiling.\<close>

definition ceiling_error :: "'n numops \<Rightarrow> 'n \<Rightarrow> string \<Rightarrow> thrown" where
  "ceiling_error ops amountUsd maxAutoPay' =
     JsError (''x402: Payment of $'' @ num_toFixed ops amountUsd 2 @
              '' exceeds auto-pay limit of $'' @ maxAutoPay')"

text \<open>
  The retried request:
  \<^verbatim>\<open>
    const retryHeaders = new Headers(init?.headers ?? {});
    retryHeaders.set('X-Payment-Proof', result.txHash ?? '');
    retryHeaders.set('X-Payment-Facilitator', 'paybot');
    return globalThis.fetch(url, { ...init, headers: retryHeaders });
  \<close>
  Building the headers raises when the caller's headers are not valid, when the
  transaction reference cannot be converted to a string, and when its string is not a
  valid header value.
\<close>

definition caller_headers :: "request_init option \<Rightarrow> headers" where
  "caller_headers init' =
     (case init' of
        None \<Rightarrow> []
      | Some i \<Rightarrow> (case init_headers i of None \<Rightarrow> [] | Some hs \<Rightarrow> hs))"

definition spread_init :: "request_init option \<Rightarrow> request_init" where
  "spread_init init' =
     (case init' of
        None \<Rightarrow> \<lparr>init_method = None, init_headers = None, init_body = None, init_others = []\<rparr>
      | Some i \<Rightarrow> i)"

definition retry_request ::
  "'n numops \<Rightarrow> string \<Rightarrow> request_init option \<Rightarrow> 'n json option \<Rightarrow> thrown + http_request" where
  "retry_request ops url' init' txHash' =
     (case Headers_new (caller_headers init') of
        Inl err \<Rightarrow> Inl err
      | Inr initial \<Rightarrow>
          (case js_String ops (nullish_or txHash' (JStr [])) of
             Inl err \<Rightarrow> Inl err
           | Inr proof \<Rightarrow>
               (case Headers_set initial ''X-Payment-Proof'' proof of
                  Inl err \<Rightarrow> Inl err
                | Inr withProof \<Rightarrow>
                    (case Headers_set withProof ''X-Payment-Facilitator'' ''paybot'' of
                       Inl err \<Rightarrow> Inl err
                     | Inr retryHeaders \<Rightarrow>
                         Inr \<lparr>url = url',
                              init = Some ((spread_init init')
                                            \<lparr>init_headers := Some retryHeaders\<rparr>)\<rparr>))))"

text \<open>
  The ceiling, \<^verbatim>\<open>config.maxAutoPay ?? '1.00'\<close>, and the amount compared with it,
  \<^verbatim>\<open>Number(requirements.amount) / 1e6\<close>.
\<close>

definition autoPayCeiling :: "X402HandlerConfig \<Rightarrow> string" where
  "autoPayCeiling config = (case maxAutoPay config of None \<Rightarrow> ''1.00'' | Some m \<Rightarrow> m)"

definition amountUsd :: "'n numops \<Rightarrow> payment_terms \<Rightarrow> 'n" where
  "amountUsd ops requirements =
     num_div ops (str_toNumber ops (termsAmount requirements)) (num_of_nat ops 1000000)"

text \<open>The request the interceptor passes to \<^verbatim>\<open>client.pay\<close>.\<close>

definition handler_payment ::
  "'n numops \<Rightarrow> X402HandlerConfig \<Rightarrow> string \<Rightarrow> payment_terms \<Rightarrow> PaymentRequest" where
  "handler_payment ops config url' requirements =
     \<lparr>resource = url',
      amount = num_toFixed ops (amountUsd ops requirements) 6,
      payTo = termsPayTo requirements,
      tokenContract = None,
      network = handlerNetwork config\<rparr>"

text \<open>
  \<^verbatim>\<open>createX402Handler(config).fetch(url, init)\<close>, with the events it caused in
  order. \<open>hist\<close> are the requests issued before the call.
\<close>

definition handler_fetch ::
  "'n numops \<Rightarrow> X402HandlerConfig \<Rightarrow> 'n env \<Rightarrow> http_request list \<Rightarrow> string \<Rightarrow>
   request_init option \<Rightarrow> 'n response completion \<times> event list" where
  "handler_fetch ops config e hist url' init' =
     (let c = PayBotClient config;
          q0 = \<lparr>url = url', init = init'\<rparr>
      in case transport e hist q0 of
           Rejected err \<Rightarrow> (Raised err, [EvFetch q0])
         | Resolved response \<Rightarrow>
             if status response \<noteq> 402 then (Returned response, [EvFetch q0])
             else
               (case parse402Response ops response url' of
                  None \<Rightarrow> (Returned response, [EvFetch q0])
                | Some requirements \<Rightarrow>
                    if num_gt ops (amountUsd ops requirements)
                         (str_toNumber ops (autoPayCeiling config)) then
                      (Raised (ceiling_error ops (amountUsd ops requirements)
                                 (autoPayCeiling config)),
                       [EvFetch q0])
                    else
                      (let request = handler_payment ops config url' requirements;
                           paid = pay ops c e (hist @ [q0]) request;
                           events = EvFetch q0 # EvPay request # map EvFetch (snd paid)
                       in case fst paid of
                            Raised err \<Rightarrow> (Raised err, events)
                          | Returned result \<Rightarrow>
                              if \<not> success result then
                                (case opt_String ops (error result) of
                                   Inl err \<Rightarrow> (Raised err, events)
                                 | Inr message \<Rightarrow>
                                     (Raised (JsError (''x402: Payment failed: '' @ message)),
                                      events))
                              else
                                (case retry_request ops url' init' (txHash result) of
                                   Inl err \<Rightarrow> (Raised err, events)
                                 | Inr q \<Rightarrow>
                                     (case transport e (hist @ q0 # snd paid) q of
                                        Rejected err \<Rightarrow> (Raised err, events @ [EvFetch q])
                                      | Resolved retried \<Rightarrow>
                                          (Returned retried, events @ [EvFetch q]))))))"

section \<open>An instance of the number operations\<close>

text \<open>
  Exact decimal arithmetic on the reals, with \<^const>\<open>None\<close> for NaN. It reads
  plain decimal numerals only and has no infinities; it is used to evaluate the functions
  above on examples whose numbers are short decimals, where it agrees with the engine.
\<close>

definition dec_Number :: "string \<Rightarrow> real option" where
  "dec_Number s =
     (let t = js_trim s in
      if t = [] then Some 0
      else
        (let neg = (hd t = CHR ''-'');
             u = (if hd t = CHR ''-'' \<or> hd t = CHR ''+'' then tl t else t);
             parts = split_on CHR ''.'' u;
             w = index_or parts 0 [];
             f = index_or parts 1 []
         in if length parts \<le> 2 \<and> all_digits w \<and> all_digits f \<and> w @ f \<noteq> [] then
              (let v = of_nat (nat_of_digits w) + of_nat (nat_of_digits f) / 10 ^ length f
               in Some (if neg then - v else v))
            else None))"

definition dec_toFixed :: "real option \<Rightarrow> nat \<Rightarrow> string" where
  "dec_toFixed x k =
     (case x of
        None \<Rightarrow> ''NaN''
      | Some r \<Rightarrow>
          (let n = nat \<lfloor>\<bar>r\<bar> * 10 ^ k + 1 / 2\<rfloor>;
               ds = string_of_nat n;
               padded = replicate (Suc k - length ds) CHR ''0'' @ ds;
               whole = take (length padded - k) padded;
               frac = drop (length padded - k) padded
           in (if r < 0 then ''-'' else []) @ whole @ (if k = 0 then [] else CHR ''.'' # frac)))"

definition dec_toString :: "real option \<Rightarrow> string" where
  "dec_toString x =
     (case x of
        None \<Rightarrow> ''NaN''
      | Some r \<Rightarrow>
          (if r = of_int \<lfloor>r\<rfloor> then string_of_int \<lfloor>r\<rfloor>
           else (case find (\<lambda>k. r * 10 ^ k = of_int \<lfloor>r * 10 ^ k\<rfloor>) [1..<21] of
                   None \<Rightarrow> dec_toFixed x 20
                 | Some k \<Rightarrow> dec_toFixed x k)))"

definition dec_ops :: "real option numops" where
  "dec_ops =
     \<lparr>num_of_nat = (\<lambda>n. Some (of_nat n)),
      num_truthy = (\<lambda>x. case x of None \<Rightarrow> False | Some r \<Rightarrow> r \<noteq> 0),
      num_isFinite = (\<lambda>x. x \<noteq> None),
      num_toString = dec_toString,
      str_toNumber = dec_Number,
      num_div = (\<lambda>x y. case (x, y) of
                          (Some a, Some b) \<Rightarrow> if b = 0 then None else Some (a / b)
                        | _ \<Rightarrow> None),
      num_gt = (\<lambda>x y. case (x, y) of (Some a, Some b) \<Rightarrow> b < a | _ \<Rightarrow> False),
      num_toFixed = dec_toFixed\<rparr>"

section \<open>Example inputs\<close>

text \<open>
  Inputs on which the functions are evaluated: a transport that answers the \<open>i\<close>-th
  request with the \<open>i\<close>-th entry of a script and fails afterwards, an environment around
  it with a fixed clock, random source and signer, and a configuration, with and without
  a wallet key.
\<close>

definition scripted ::
  "'n fetch_result list \<Rightarrow> http_request list \<Rightarrow> http_request \<Rightarrow> 'n fetch_result" where
  "scripted script hist q =
     (if length hist < length script then script ! length hist
      else Rejected (JsError ''fetch failed''))"

definition example_env :: "'n fetch_result list \<Rightarrow> 'n env" where
  "example_env script =
     \<lparr>transport = scripted script,
      now_ms = 1700000000000,
      randomBytes = (\<lambda>n. replicate n 0xAB),
      privateKeyToAccount = (\<lambda>key. Inr ''0xA11CE''),
      signTypedData = (\<lambda>key td. Inr ''0x5167'')\<rparr>"

definition example_config :: "string option \<Rightarrow> X402HandlerConfig" where
  "example_config key =
     \<lparr>apiKey = ''pb_test_key'', facilitatorUrl = None, botId = ''my-bot'',
      operatorId = None, walletPrivateKey = key,
      maxAutoPay = None, handlerNetwork = None\<rparr>"

definition example_request :: "string option \<Rightarrow> PaymentRequest" where
  "example_request chain =
     \<lparr>resource = ''https://api.example.com/data'', amount = ''0.01'', payTo = ''0xB0B'',
      tokenContract = None, network = chain\<rparr>"

definition json_response :: "nat \<Rightarrow> headers \<Rightarrow> 'n json \<Rightarrow> 'n response" where
  "json_response code hs body = \<lparr>status = code, resp_headers = hs, resp_json = Inr body\<rparr>"

definition text_response :: "nat \<Rightarrow> headers \<Rightarrow> 'n response" where
  "text_response code hs =
     \<lparr>status = code, resp_headers = hs,
      resp_json = Inl (JsError ''Unexpected token < in JSON at position 0'')\<rparr>"

section \<open>Properties of the amount conversion\<close>

declare string_of_nat.simps [simp del]

lemma split_on_no_sep: "sep \<notin> set s \<Longrightarrow> split_on sep s = [s]"
  by (induction s) auto

lemma split_on_first: "sep \<notin> set w \<Longrightarrow> split_on sep (w @ sep # rest) = w # split_on sep rest"
  by (induction w) auto

lemma is_digit_not_dot: "is_digit c \<Longrightarrow> c \<noteq> CHR ''.''"
  by (auto simp: is_digit_def)

lemma all_digits_no_dot: "all_digits s \<Longrightarrow> CHR ''.'' \<notin> set s"
  by (auto simp: all_digits_def list_all_iff dest: is_digit_not_dot)

lemma nat_of_digits_snoc:
  "nat_of_digits (ds @ [d]) = 10 * nat_of_digits ds + (of_char d - 48)"
  by (simp add: nat_of_digits_def)

lemma char_of_48: "char_of (48::nat) = CHR ''0''"
  by code_simp

lemma of_char_48_iff: "(of_char d :: nat) = 48 \<longleftrightarrow> d = CHR ''0''"
proof
  assume "(of_char d :: nat) = 48"
  then have "char_of (of_char d :: nat) = char_of (48::nat)" by simp
  then show "d = CHR ''0''" by (simp add: char_of_48)
qed simp

lemma digit_char_of_char: "is_digit d \<Longrightarrow> digit_char (of_char d - 48) = d"
  by (simp add: is_digit_def digit_char_def Let_def)

lemma is_digit_val_lt: "is_digit d \<Longrightarrow> (of_char d :: nat) - 48 < 10"
  by (auto simp: is_digit_def Let_def)

lemma is_digit_zero: "is_digit d \<Longrightarrow> (of_char d :: nat) - 48 = 0 \<longleftrightarrow> d = CHR ''0''"
proof -
  assume "is_digit d"
  then have "48 \<le> (of_char d :: nat)" by (simp add: is_digit_def Let_def)
  then have "(of_char d :: nat) - 48 = 0 \<longleftrightarrow> (of_char d :: nat) = 48" by arith
  then show ?thesis by (simp only: of_char_48_iff)
qed

lemma nat_of_digits_zero_iff:
  "all_digits ds \<Longrightarrow> nat_of_digits ds = 0 \<longleftrightarrow> (\<forall>c\<in>set ds. c = CHR ''0'')"
proof (induction ds rule: rev_induct)
  case Nil
  then show ?case by (simp add: nat_of_digits_def)
next
  case (snoc d ds)
  then have d: "is_digit d" and ds: "all_digits ds" by (auto simp: all_digits_def)
  show ?case using snoc.IH [OF ds] is_digit_zero [OF d]
    by (auto simp: nat_of_digits_snoc)
qed

lemma string_of_nat_step:
  assumes "d < 10" "0 < v"
  shows "string_of_nat (10 * v + d) = string_of_nat v @ [digit_char d]"
proof -
  have "\<not> 10 * v + d < 10" using assms by simp
  moreover have "(10 * v + d) div 10 = v" "(10 * v + d) mod 10 = d" using assms by auto
  ultimately show ?thesis by (subst string_of_nat.simps) simp
qed

lemma string_of_nat_small: "d < 10 \<Longrightarrow> string_of_nat d = [digit_char d]"
  by (subst string_of_nat.simps) simp

lemma canonical_digits:
  "all_digits ds \<Longrightarrow> canonical ds = string_of_nat (nat_of_digits ds)"
proof (induction ds rule: rev_induct)
  case Nil
  show ?case by (simp add: canonical_def strip_leading_zeros_def nat_of_digits_def
        string_of_nat_small digit_char_def char_of_48)
next
  case (snoc d ds)
  then have d: "is_digit d" and ds: "all_digits ds" by (auto simp: all_digits_def)
  note IH = snoc.IH [OF ds]
  show ?case
  proof (cases "\<forall>c\<in>set ds. c = CHR ''0''")
    case True
    then have z: "nat_of_digits ds = 0" using nat_of_digits_zero_iff [OF ds] by simp
    have s: "strip_leading_zeros (ds @ [d]) = strip_leading_zeros [d]"
      using True by (simp add: strip_leading_zeros_def dropWhile_append2)
    have v: "nat_of_digits (ds @ [d]) = of_char d - 48"
      by (simp add: nat_of_digits_snoc z)
    have "string_of_nat (of_char d - 48) = [d]"
      using string_of_nat_small [OF is_digit_val_lt [OF d]] digit_char_of_char [OF d] by simp
    then show ?thesis
      unfolding canonical_def s v by (simp add: strip_leading_zeros_def)
  next
    case False
    then have nz: "0 < nat_of_digits ds" using nat_of_digits_zero_iff [OF ds] by auto
    from False have ne: "strip_leading_zeros ds \<noteq> []"
      by (auto simp: strip_leading_zeros_def dropWhile_eq_Nil_conv)
    from False have s: "strip_leading_zeros (ds @ [d]) = strip_leading_zeros ds @ [d]"
      by (auto simp: strip_leading_zeros_def dropWhile_append1)
    have "canonical (ds @ [d]) = canonical ds @ [d]"
      using ne by (simp add: canonical_def s)
    then show ?thesis
      using IH string_of_nat_step [OF is_digit_val_lt [OF d] nz] digit_char_of_char [OF d]
      by (simp add: nat_of_digits_snoc)
  qed
qed

lemma nat_of_digits_append:
  "nat_of_digits (xs @ ys) = nat_of_digits xs * 10 ^ length ys + nat_of_digits ys"
proof (induction ys rule: rev_induct)
  case Nil
  show ?case by (simp add: nat_of_digits_def)
next
  case (snoc y ys)
  have "nat_of_digits (xs @ ys @ [y]) = 10 * nat_of_digits (xs @ ys) + (of_char y - 48)"
    using nat_of_digits_snoc [of "xs @ ys" y] by simp
  then show ?case by (simp add: snoc.IH nat_of_digits_snoc algebra_simps)
qed

lemma nat_of_digits_zeros: "nat_of_digits (replicate k CHR ''0'') = 0"
  by (induction k) (simp_all add: nat_of_digits_def replicate_app_Cons_same)

lemma is_digit_0: "is_digit CHR ''0''"
  by (simp add: is_digit_def)

lemma usdToBaseUnits_whole:
  assumes "all_digits w"
  shows "usdToBaseUnits w = string_of_nat (nat_of_digits w * 10 ^ 6)"
proof -
  have sp: "split_on CHR ''.'' w = [w]"
    using assms by (simp add: split_on_no_sep all_digits_no_dot)
  have ad: "all_digits (w @ replicate 6 CHR ''0'')"
    using assms by (simp add: all_digits_def is_digit_0 list_all_iff)
  have "usdToBaseUnits w = canonical (w @ replicate 6 CHR ''0'')"
    by (simp add: usdToBaseUnits_def sp index_or_def padEnd_def slice0_def canonical_def Let_def)
  also have "\<dots> = string_of_nat (nat_of_digits (w @ replicate 6 CHR ''0''))"
    by (rule canonical_digits [OF ad])
  also have "nat_of_digits (w @ replicate 6 CHR ''0'') = nat_of_digits w * 10 ^ 6"
    by (simp only: nat_of_digits_append nat_of_digits_zeros length_replicate add_0_right)
  finally show ?thesis .
qed

lemma usdToBaseUnits_fraction:
  assumes "all_digits w" "all_digits f" "length f \<le> 6"
  shows "usdToBaseUnits (w @ ''.'' @ f) =
         string_of_nat (nat_of_digits w * 10 ^ 6 + nat_of_digits f * 10 ^ (6 - length f))"
proof -
  let ?z = "replicate (6 - length f) CHR ''0''"
  have sp: "split_on CHR ''.'' (w @ CHR ''.'' # f) = [w, f]"
    using assms by (simp add: split_on_first split_on_no_sep all_digits_no_dot)
  have ad: "all_digits (w @ f @ ?z)"
    using assms by (auto simp: all_digits_def is_digit_0 list_all_iff)
  have "usdToBaseUnits (w @ ''.'' @ f) = canonical (w @ f @ ?z)"
    using assms(3)
    by (simp add: usdToBaseUnits_def sp index_or_def padEnd_def slice0_def canonical_def Let_def)
  also have "\<dots> = string_of_nat (nat_of_digits (w @ f @ ?z))"
    by (rule canonical_digits [OF ad])
  also have "nat_of_digits (w @ f @ ?z) =
      nat_of_digits w * 10 ^ 6 + nat_of_digits f * 10 ^ (6 - length f)"
    using assms(3)
    by (simp add: nat_of_digits_append nat_of_digits_zeros power_add [symmetric] algebra_simps)
  finally show ?thesis .
qed

subsection \<open>Evaluation rules\<close>

lemma digit_char_simps:
  "digit_char 0 = CHR ''0''" "digit_char (Suc 0) = CHR ''1''" "digit_char 2 = CHR ''2''"
  "digit_char 3 = CHR ''3''" "digit_char 4 = CHR ''4''" "digit_char 5 = CHR ''5''"
  "digit_char 6 = CHR ''6''" "digit_char 7 = CHR ''7''" "digit_char 8 = CHR ''8''"
  "digit_char 9 = CHR ''9''"
  by code_simp+

lemma string_of_nat_numeral:
  "string_of_nat (numeral k) =
     (if (numeral k :: nat) < 10 then [digit_char (numeral k)]
      else string_of_nat (numeral k div 10) @ [digit_char (numeral k mod 10)])"
  by (rule string_of_nat.simps)

lemma string_of_nat_0: "string_of_nat 0 = ''0''"
  by (simp add: string_of_nat.simps [of 0] digit_char_simps)

lemma string_of_nat_1: "string_of_nat (Suc 0) = ''1''"
  by (simp add: string_of_nat.simps [of "Suc 0"] digit_char_simps)

lemma replicate_numeral_eval: "replicate (numeral k) x = x # replicate (pred_numeral k) x"
  by (simp add: numeral_eq_Suc)

lemmas string_of_nat_eval =
  string_of_nat_numeral string_of_nat_0 string_of_nat_1 digit_char_simps

lemmas dec_eval =
  dec_ops_def dec_Number_def dec_toFixed_def js_trim_def is_space_def all_digits_def
  is_digit_def nat_of_digits_def index_or_def string_of_nat_eval replicate_numeral_eval

lemmas usd_eval =
  usdToBaseUnits_def index_or_def padEnd_def slice0_def strip_leading_zeros_def
  replicate_numeral_eval

subsection \<open>The conversion on decimal amounts\<close>

lemma usdToBaseUnits_examples:
  "usdToBaseUnits ''10.00'' = ''10000000''"
  "usdToBaseUnits ''0.01'' = ''10000''"
  "usdToBaseUnits ''0.000001'' = ''1''"
  "usdToBaseUnits ''0'' = ''0''"
  by (simp_all add: usd_eval)

lemma scaled_amount_value:
  assumes "length f \<le> 6"
  shows "(of_nat (scaled_amount w f) :: rat) =
         (of_nat (nat_of_digits w) + of_nat (nat_of_digits f) / 10 ^ length f) * 10 ^ 6"
proof -
  let ?a = "of_nat (nat_of_digits w) :: rat" and ?b = "of_nat (nat_of_digits f) :: rat"
  have e: "(10::rat) ^ 6 = 10 ^ length f * 10 ^ (6 - length f)"
    using assms by (simp add: power_add [symmetric])
  have "?b / 10 ^ length f * (10 ^ length f * 10 ^ (6 - length f)) = ?b * 10 ^ (6 - length f)"
    by simp
  then have "(?a + ?b / 10 ^ length f) * 10 ^ 6 = ?a * 10 ^ 6 + ?b * 10 ^ (6 - length f)"
    by (simp only: e distrib_right)
  then show ?thesis
    by (simp add: scaled_amount_def)
qed

text \<open>
  C2. For an amount written as digits \<open>w\<close>, or as digits \<open>w\<close>, a point and at most six
  digits \<open>f\<close>, \<open>usdToBaseUnits\<close> returns the decimal numeral, without leading zeros and
  \<open>0\<close> for zero, of the amount scaled by \<open>10 ^ 6\<close>; and it maps \<open>10.00\<close> to
  \<open>10000000\<close>, \<open>0.01\<close> to \<open>10000\<close>, \<open>0.000001\<close> to \<open>1\<close> and \<open>0\<close> to \<open>0\<close>.
\<close>

theorem usdToBaseUnits_scaled:
  assumes "all_digits w" and "all_digits f" and "length f \<le> 6"
  shows "usdToBaseUnits w = string_of_nat (scaled_amount w [])
       \<and> usdToBaseUnits (w @ ''.'' @ f) = string_of_nat (scaled_amount w f)
       \<and> string_of_nat (scaled_amount w f) = canonical (w @ f @ replicate (6 - length f) CHR ''0'')
       \<and> usdToBaseUnits ''10.00'' = ''10000000''
       \<and> usdToBaseUnits ''0.01'' = ''10000''
       \<and> usdToBaseUnits ''0.000001'' = ''1''
       \<and> usdToBaseUnits ''0'' = ''0''"
proof -
  have whole: "usdToBaseUnits w = string_of_nat (scaled_amount w [])"
    using usdToBaseUnits_whole [OF assms(1)]
    by (simp add: scaled_amount_def nat_of_digits_def)
  have frac: "usdToBaseUnits (w @ ''.'' @ f) = string_of_nat (scaled_amount w f)"
    using usdToBaseUnits_fraction [OF assms] by (simp only: scaled_amount_def)
  have ad: "all_digits (w @ f @ replicate (6 - length f) CHR ''0'')"
    using assms by (auto simp: all_digits_def is_digit_0 list_all_iff)
  have "nat_of_digits (w @ f @ replicate (6 - length f) CHR ''0'') = scaled_amount w f"
    using assms(3)
    by (simp add: scaled_amount_def nat_of_digits_append nat_of_digits_zeros
        power_add [symmetric] algebra_simps)
  then have canon: "string_of_nat (scaled_amount w f) =
      canonical (w @ f @ replicate (6 - length f) CHR ''0'')"
    using canonical_digits [OF ad] by simp
  show ?thesis
    using whole frac canon usdToBaseUnits_examples by blast
qed

theorem usdToBaseUnits_scaled_witness:
  "all_digits ''12'' \<and> all_digits ''50'' \<and> length ''50'' \<le> 6
   \<and> usdToBaseUnits ''12.50'' = string_of_nat (scaled_amount ''12'' ''50'')
   \<and> string_of_nat (scaled_amount ''12'' ''50'') = ''12500000''"
proof -
  have h: "all_digits ''12''" "all_digits ''50''" "length ''50'' \<le> 6"
    by (simp_all add: all_digits_def is_digit_def)
  have "scaled_amount ''12'' ''50'' = 12500000"
    by (simp add: scaled_amount_def nat_of_digits_def)
  then have "string_of_nat (scaled_amount ''12'' ''50'') = ''12500000''"
    by (simp add: string_of_nat_eval)
  then show ?thesis
    using h usdToBaseUnits_scaled [OF h] by simp
qed

section \<open>Properties of payment execution\<close>

lemma nullish_or_not_null: "d \<noteq> JNull \<Longrightarrow> nullish_or x d \<noteq> JNull"
  by (cases "(x, d)" rule: nullish_or.cases) auto

lemma nullish_or_cases:
  "nullish_or x d = (case x of None \<Rightarrow> d | Some JNull \<Rightarrow> d | Some v \<Rightarrow> v)"
  by (cases "(x, d)" rule: nullish_or.cases) auto



lemma failure_simps [simp]:
  "success (failure ops a b d) = False"
  "grossAmount (failure ops a b d) = ''0''"
  "netAmount (failure ops a b d) = ''0''"
  "commissionAmount (failure ops a b d) = ''0''"
  "commissionRate (failure ops a b d) = num_of_nat ops 0"
  "error (failure ops a b d) = a"
  "errorCode (failure ops a b d) = b"
  "errorDetails (failure ops a b d) = d"
  "txHash (failure ops a b d) = None"
  by (simp_all add: failure_def)

lemma success_result_success:
  "success_result ops commissionData transaction chain = Returned r \<Longrightarrow> success r"
  by (auto simp: success_result_def split: sum.splits)

lemma http_failure_cases:
  "http_failure ops errorData fb =
     (if errorData = JNull then Raised (null_read_error ''error'')
      else Returned (failure ops (Some (nullish_or (js_prop errorData ''error'') (JStr fb)))
                      (nullish_or_undefined (js_prop errorData ''code''))
                      (js_prop errorData ''details'')))"
  by (cases errorData) (simp_all add: http_failure_def js_get_def)

lemma js_get_cases:
  "js_get v k = (if v = JNull then Inl (null_read_error k) else Inr (js_prop v k))"
  by (cases v) (simp_all add: js_get_def)

lemma snoc_eq_single: "reqs @ [q] = [a] \<longleftrightarrow> reqs = [] \<and> q = a"
  by auto

lemma snoc_eq_double: "reqs @ [q] = [a, b] \<longleftrightarrow> reqs = [a] \<and> q = b"
  by (cases reqs) auto

text \<open>The body of \<open>pay\<close>, and then \<open>pay\<close>, by what happened to the last request.\<close>

lemma pay_returns: "\<exists>r. fst (pay ops c e hist request) = Returned r"
  by (simp add: pay_def split: prod.splits completion.splits)

lemma pay_snd: "snd (pay ops c e hist request) = snd (pay_try ops c e hist request)"
  by (simp add: pay_def split: prod.splits completion.splits)

lemma pay_fst:
  "fst (pay ops c e hist request) =
     (case fst (pay_try ops c e hist request) of
        Returned r \<Rightarrow> Returned r
      | Raised err \<Rightarrow> Returned (failure ops (Some (JStr (getErrorMessage err))) None None))"
  by (simp add: pay_def split: prod.splits completion.splits)

lemma pay_try_failure:
  assumes "fst (pay_try ops c e hist request) = Returned r" and "\<not> success r"
  shows "r = failure ops (error r) (errorCode r) (errorDetails r)
       \<and> error r \<noteq> None \<and> error r \<noteq> Some JNull"
  using assms
  by (auto simp: pay_try_def Let_def http_failure_cases nullish_or_not_null
      dest: success_result_success
      split: completion.splits fetch_result.splits if_splits sum.splits)

lemma pay_failure:
  assumes "fst (pay ops c e hist request) = Returned r" and "\<not> success r"
  shows "r = failure ops (error r) (errorCode r) (errorDetails r)
       \<and> error r \<noteq> None \<and> error r \<noteq> Some JNull"
proof (cases "fst (pay_try ops c e hist request)")
  case (Returned r')
  then have "r' = r" using assms(1) by (simp add: pay_fst)
  then show ?thesis using pay_try_failure [of ops c e hist request r] Returned assms(2) by simp
next
  case (Raised err)
  then have "r = failure ops (Some (JStr (getErrorMessage err))) None None"
    using assms(1) by (simp add: pay_fst)
  then show ?thesis by simp
qed



lemma pay_try_not_ok:
  assumes "snd (pay_try ops c e hist request) = reqs @ [q]"
    and "transport e (hist @ reqs) q = Resolved resp" and "\<not> response_ok resp"
  shows "fst (pay_try ops c e hist request) =
         http_failure ops (json_or_empty resp)
           ((if reqs = [] then ''HTTP '' else ''Settlement HTTP '') @ string_of_nat (status resp))"
  using assms
  by (auto simp: pay_try_def Let_def snoc_eq_single snoc_eq_double
      split: completion.splits fetch_result.splits if_splits sum.splits)



lemma pay_try_first_request:
  assumes "snd (pay_try ops c e hist request) = q # rest"
  shows "url q = client_facilitatorUrl c @ ''/verify''"
  using assms
  by (auto simp: pay_try_def Let_def verify_request_def post_json_def
      split: completion.splits fetch_result.splits if_splits sum.splits)

lemma pay_try_stops_after_verify:
  assumes "snd (pay_try ops c e hist request) = q # rest"
    and "transport e hist q = Resolved resp" and "\<not> response_ok resp"
  shows "rest = []"
  using assms
  by (auto simp: pay_try_def Let_def
      split: completion.splits fetch_result.splits if_splits sum.splits)





text \<open>
  C4. When the first request \<open>pay\<close> issues, which is the request to \<open>/verify\<close>, is
  answered with a status that is not a success, no other request is issued: the request
  to \<open>/settle\<close> is never sent, and the result is a failure.
\<close>

theorem verify_failure_stops_settle:
  assumes "snd (pay ops c e hist request) = q # rest"
    and "transport e hist q = Resolved resp"
    and "\<not> response_ok resp"
  shows "url q = client_facilitatorUrl c @ ''/verify''
       \<and> snd (pay ops c e hist request) = [q]
       \<and> (\<exists>r. fst (pay ops c e hist request) = Returned r \<and> \<not> success r)"
proof -
  from assms(1) have t: "snd (pay_try ops c e hist request) = q # rest"
    by (simp add: pay_snd)
  have u: "url q = client_facilitatorUrl c @ ''/verify''"
    by (rule pay_try_first_request [OF t])
  have rest: "rest = []"
    by (rule pay_try_stops_after_verify [OF t assms(2,3)])
  with t have t1: "snd (pay_try ops c e hist request) = [] @ [q]" by simp
  from assms(2) have tr: "transport e (hist @ []) q = Resolved resp" by simp
  have "\<exists>r. fst (pay ops c e hist request) = Returned r \<and> \<not> success r"
    using pay_try_not_ok [OF t1 tr assms(3)]
    by (auto simp: pay_fst http_failure_cases)
  with u rest assms(1) show ?thesis by simp
qed

theorem verify_failure_stops_settle_witness:
  "snd (pay dec_ops (PayBotClient (example_config None))
          (example_env [Resolved (text_response 500 []), Resolved (text_response 200 [])])
          [] (example_request None))
   = [verify_request dec_ops (PayBotClient (example_config None)) (example_request None)
        ''eip155:84532'' ''0x036CbD53842c5426634e7929541eC2318f3dCF7e'' ''10000''
        ''payer:my-bot'']
   \<and> (\<exists>r. fst (pay dec_ops (PayBotClient (example_config None))
          (example_env [Resolved (text_response 500 []), Resolved (text_response 200 [])])
          [] (example_request None)) = Returned r \<and> \<not> success r)"
proof -
  let ?c = "PayBotClient (example_config None)"
  let ?e = "example_env [Resolved (text_response 500 []), Resolved (text_response 200 [])]
              :: real option env"
  let ?q = "verify_request dec_ops ?c (example_request None) ''eip155:84532''
              ''0x036CbD53842c5426634e7929541eC2318f3dCF7e'' ''10000'' ''payer:my-bot''"
  have sn: "snd (pay dec_ops ?c ?e [] (example_request None)) = ?q # []"
    by (simp add: pay_snd pay_try_def buildPaymentPayload_def PayBotClient_def
        example_config_def example_request_def example_env_def scripted_def
        text_response_def response_ok_def usd_eval)
  have tr: "transport ?e [] ?q = Resolved (text_response 500 [])"
    by (simp add: example_env_def scripted_def)
  have nok: "\<not> response_ok (text_response 500 [] :: real option response)"
    by (simp add: text_response_def response_ok_def)
  show ?thesis
    using verify_failure_stops_settle [OF sn tr nok] by simp
qed

text \<open>
  C5. The result of \<open>pay\<close> always has the four amount fields, and when it is not a
  success they are \<open>0\<close>, \<open>0\<close>, \<open>0\<close> and the number zero.
\<close>

theorem failure_amounts_zeroed:
  "\<exists>r. fst (pay ops c e hist request) = Returned r
     \<and> (\<not> success r \<longrightarrow>
          grossAmount r = ''0'' \<and> netAmount r = ''0'' \<and> commissionAmount r = ''0''
          \<and> commissionRate r = num_of_nat ops 0)"
proof -
  obtain r where r: "fst (pay ops c e hist request) = Returned r"
    using pay_returns by blast
  have "grossAmount r = ''0'' \<and> netAmount r = ''0'' \<and> commissionAmount r = ''0''
          \<and> commissionRate r = num_of_nat ops 0" if "\<not> success r"
  proof -
    from pay_failure [OF r that]
    have "r = failure ops (error r) (errorCode r) (errorDetails r)" by simp
    then show ?thesis
      by (metis failure_simps(2-5))
  qed
  with r show ?thesis by blast
qed

theorem failure_amounts_zeroed_witness:
  "\<exists>r. fst (pay dec_ops (PayBotClient (example_config None)) (example_env []) []
              (example_request None)) = Returned r
     \<and> \<not> success r
     \<and> grossAmount r = ''0'' \<and> netAmount r = ''0'' \<and> commissionAmount r = ''0''
     \<and> commissionRate r = num_of_nat dec_ops 0"
proof -
  let ?out = "pay dec_ops (PayBotClient (example_config None)) (example_env []) []
              (example_request None)"
  have f: "fst ?out = Returned (failure dec_ops (Some (JStr ''fetch failed'')) None None)"
    by (simp add: pay_fst pay_try_def buildPaymentPayload_def PayBotClient_def
        example_config_def example_request_def example_env_def scripted_def Let_def)
  obtain r where r: "fst ?out = Returned r"
    and z: "\<not> success r \<longrightarrow>
          grossAmount r = ''0'' \<and> netAmount r = ''0'' \<and> commissionAmount r = ''0''
          \<and> commissionRate r = num_of_nat dec_ops 0"
    using failure_amounts_zeroed [of dec_ops "PayBotClient (example_config None)"
        "example_env []" "[]" "example_request None"] by blast
  from f r have "\<not> success r" by auto
  with r z show ?thesis by blast
qed

lemma absent_domain_raises:
  assumes "client_walletPrivateKey c = Some key" and "key \<noteq> []"
    and "network request = Some chain" and "EIP712_DOMAINS chain = None"
  shows "pay ops c e hist request
           = (Returned (failure ops
                (Some (JStr (''No EIP-712 domain for network: '' @ chain))) None None), [])"
proof -
  have "buildPaymentPayload ops c e (payTo request) (usdToBaseUnits (amount request)) chain
           = Raised (JsError (''No EIP-712 domain for network: '' @ chain))"
    using assms(1,2,4) by (simp add: buildPaymentPayload_def signAuthorization_def)
  then have "pay_try ops c e hist request
          = (Raised (JsError (''No EIP-712 domain for network: '' @ chain)), [])"
    using assms(3) by (simp add: pay_try_def)
  then show ?thesis
    by (simp add: pay_def)
qed

text \<open>
  C9 on the chain identifier \<open>__proto__\<close>, which has no registered signing domain, with
  a wallet key configured: the lookup finds the member every object inherits, the check
  for an unknown domain does not fire, the payload is signed with that member as its
  domain, and the request to \<open>/verify\<close> is issued. The error for an unknown signing domain
  is raised only for a chain identifier that is neither registered nor the name of an
  inherited member.
\<close>

theorem inherited_member_passes_domain_check:
  "map_of registered_domains ''__proto__'' = None
   \<and> EIP712_DOMAINS ''__proto__'' = Some (Inherited ''__proto__'')
   \<and> buildPaymentPayload dec_ops (PayBotClient (example_config (Some ''0x01'')))
        (example_env [] :: real option env) ''0xB0B'' ''10000'' ''__proto__''
      = Returned (JSON_stringify dec_ops (authorization_json
          \<lparr>auth_message =
             \<lparr>msg_from = ''0xA11CE'', msg_to = ''0xB0B'', msg_value = 10000,
              msg_validAfter = 0, msg_validBefore = 1700003600,
              msg_nonce = generateEIP3009Nonce (example_env [] :: real option env)\<rparr>,
           auth_signature = ''0x5167''\<rparr>))
   \<and> snd (pay dec_ops (PayBotClient (example_config (Some ''0x01'')))
        (example_env [] :: real option env) [] (example_request (Some ''__proto__'')))
      = [verify_request dec_ops (PayBotClient (example_config (Some ''0x01'')))
           (example_request (Some ''__proto__'')) ''__proto__''
           ''0x036CbD53842c5426634e7929541eC2318f3dCF7e'' ''10000''
           (JSON_stringify dec_ops (authorization_json
              \<lparr>auth_message =
                 \<lparr>msg_from = ''0xA11CE'', msg_to = ''0xB0B'', msg_value = 10000,
                  msg_validAfter = 0, msg_validBefore = 1700003600,
                  msg_nonce = generateEIP3009Nonce (example_env [] :: real option env)\<rparr>,
               auth_signature = ''0x5167''\<rparr>))]"
proof -
  let ?c = "PayBotClient (example_config (Some ''0x01''))"
  let ?e = "example_env [] :: real option env"
  let ?a = "\<lparr>auth_message =
               \<lparr>msg_from = ''0xA11CE'', msg_to = ''0xB0B'', msg_value = 10000,
                msg_validAfter = 0, msg_validBefore = 1700003600,
                msg_nonce = generateEIP3009Nonce ?e\<rparr>,
             auth_signature = ''0x5167''\<rparr>"
  have own: "map_of registered_domains ''__proto__'' = None"
    by (simp add: registered_domains_def)
  have look: "EIP712_DOMAINS ''__proto__'' = Some (Inherited ''__proto__'')"
    by (simp add: EIP712_DOMAINS_def own object_prototype_members_def)
  have s: "signAuthorization ?e ''0x01'' ''0xB0B'' ''10000'' ''__proto__'' = Returned ?a"
    by (simp add: signAuthorization_def look example_env_def BigInt_def
        js_trim_def is_space_def nat_of_radix_def digit_val_def lower_char_def
        generateEIP3009Nonce_def)
  have b: "buildPaymentPayload dec_ops ?c ?e ''0xB0B'' ''10000'' ''__proto__''
           = Returned (JSON_stringify dec_ops (authorization_json ?a))"
    by (simp add: buildPaymentPayload_def PayBotClient_def example_config_def s)
  have t: "transport ?e [] q = Rejected (JsError ''fetch failed'')" for q
    by (simp add: example_env_def scripted_def)
  have "snd (pay dec_ops ?c ?e [] (example_request (Some ''__proto__'')))
      = [verify_request dec_ops ?c (example_request (Some ''__proto__'')) ''__proto__''
           ''0x036CbD53842c5426634e7929541eC2318f3dCF7e'' ''10000''
           (JSON_stringify dec_ops (authorization_json ?a))]"
    by (simp add: pay_snd pay_try_def example_request_def usd_eval Let_def b t)
  with own look b show ?thesis by simp
qed

section \<open>Properties of the signed authorization\<close>

lemma signAuthorization_window:
  assumes "signAuthorization e key payTo' amountBaseUnits chain = Returned a"
  shows "msg_validAfter (auth_message a) = 0
       \<and> msg_validBefore (auth_message a) = int (now_ms e div 1000) + 3600"
  using assms
  by (auto simp: signAuthorization_def Let_def split: option.splits sum.splits)

text \<open>
  C3, as the code has it. Every payload built with a wallet key configured is the
  serialisation of a signed authorization whose \<open>validAfter\<close> is \<open>0\<close> and whose
  \<open>validBefore\<close> is the time of signing, in seconds since the epoch, plus \<open>3600\<close>: the
  window ends exactly 3600 seconds after the signing time, and its length
  \<open>validBefore - validAfter\<close> is that time plus \<open>3600\<close>.
\<close>

theorem signed_window_from_epoch:
  assumes "key_configured c"
    and "buildPaymentPayload ops c e payTo' amountBaseUnits chain = Returned p"
  shows "\<exists>a. p = JSON_stringify ops (authorization_json a)
           \<and> msg_validAfter (auth_message a) = 0
           \<and> msg_validBefore (auth_message a) - int (now_ms e div 1000) = 3600
           \<and> msg_validBefore (auth_message a) - msg_validAfter (auth_message a)
               = int (now_ms e div 1000) + 3600"
proof -
  from assms(1) obtain key where key: "client_walletPrivateKey c = Some key" "key \<noteq> []"
    by (auto simp: key_configured_def split: option.splits)
  with assms(2) obtain a
    where a: "signAuthorization e key payTo' amountBaseUnits chain = Returned a"
      and p: "p = JSON_stringify ops (authorization_json a)"
    by (auto simp: buildPaymentPayload_def split: completion.splits)
  from signAuthorization_window [OF a] p show ?thesis by auto
qed

theorem signed_window_from_epoch_witness:
  "key_configured (PayBotClient (example_config (Some ''0x01'')))
   \<and> (\<exists>a. buildPaymentPayload dec_ops (PayBotClient (example_config (Some ''0x01'')))
             (example_env []) ''0xB0B'' ''10000'' ''eip155:84532''
           = Returned (JSON_stringify dec_ops (authorization_json a))
         \<and> msg_validAfter (auth_message a) = 0
         \<and> msg_validBefore (auth_message a) = 1700003600)"
proof -
  let ?c = "PayBotClient (example_config (Some ''0x01''))"
  let ?e = "example_env [] :: real option env"
  let ?a = "\<lparr>auth_message =
               \<lparr>msg_from = ''0xA11CE'', msg_to = ''0xB0B'', msg_value = 10000,
                msg_validAfter = 0, msg_validBefore = 1700003600,
                msg_nonce = generateEIP3009Nonce ?e\<rparr>,
             auth_signature = ''0x5167''\<rparr>"
  have k: "key_configured ?c"
    by (simp add: key_configured_def PayBotClient_def example_config_def)
  have s: "signAuthorization ?e ''0x01'' ''0xB0B'' ''10000'' ''eip155:84532'' = Returned ?a"
    by (simp add: signAuthorization_def EIP712_DOMAINS_def registered_domains_def example_env_def BigInt_def
        js_trim_def is_space_def nat_of_radix_def digit_val_def lower_char_def
        generateEIP3009Nonce_def)
  have b: "buildPaymentPayload dec_ops ?c ?e ''0xB0B'' ''10000'' ''eip155:84532''
           = Returned (JSON_stringify dec_ops (authorization_json ?a))"
    by (simp add: buildPaymentPayload_def PayBotClient_def example_config_def s)
  from signed_window_from_epoch [OF k b] have "now_ms ?e div 1000 = 1700000000"
    by (simp add: example_env_def)
  with signed_window_from_epoch [OF k b] b k show ?thesis
    by (intro conjI exI [of _ ?a]) simp_all
qed

text \<open>
  The window of C3 as the claim states it, of length \<open>3600\<close>, fails: signing at
  \<open>1700000000\<close> seconds gives a window from \<open>0\<close> to \<open>1700003600\<close>.
\<close>

theorem signed_window_length_counterexample:
  "signAuthorization (example_env [] :: real option env) ''0x01'' ''0xB0B'' ''10000''
      ''eip155:84532''
   = Returned \<lparr>auth_message =
                 \<lparr>msg_from = ''0xA11CE'', msg_to = ''0xB0B'', msg_value = 10000,
                  msg_validAfter = 0, msg_validBefore = 1700003600,
                  msg_nonce = generateEIP3009Nonce (example_env [] :: real option env)\<rparr>,
               auth_signature = ''0x5167''\<rparr>
   \<and> (1700003600 :: int) - 0 \<noteq> 3600"
  by (simp add: signAuthorization_def EIP712_DOMAINS_def registered_domains_def example_env_def BigInt_def
      js_trim_def is_space_def nat_of_radix_def digit_val_def lower_char_def
      generateEIP3009Nonce_def)

section \<open>Properties of the interceptor\<close>

subsection \<open>Header lists\<close>

lemma same_header_trans: "same_header a b \<Longrightarrow> same_header a c \<longleftrightarrow> same_header b c"
  by (simp add: same_header_def)

lemma filter_same_headers_set:
  "map snd (filter (\<lambda>(k, w). same_header k name) (replace_header hs name v)) = [v]"
proof (induction hs)
  case Nil
  show ?case by (simp add: same_header_def)
next
  case (Cons h hs)
  obtain k w where h: "h = (k, w)" by (cases h)
  have "filter (\<lambda>(k, w). same_header k name)
          (filter (\<lambda>(k', w'). \<not> same_header k' name) hs) = []"
    by (auto simp: filter_empty_conv)
  then show ?case using Cons.IH by (simp add: h)
qed

lemma filter_other_headers_set:
  assumes "\<not> same_header m name"
  shows "filter (\<lambda>(k, w). same_header k m) (replace_header hs name v)
       = filter (\<lambda>(k, w). same_header k m) hs"
proof (induction hs)
  case Nil
  show ?case using assms by (simp add: same_header_def)
next
  case (Cons h hs)
  obtain k w where h: "h = (k, w)" by (cases h)
  show ?case
  proof (cases "same_header k name")
    case True
    then have km: "\<not> same_header k m"
      using assms by (auto simp: same_header_def)
    have "filter (\<lambda>(k, w). same_header k m) (filter (\<lambda>(k', w'). \<not> same_header k' name) hs)
        = filter (\<lambda>(k, w). same_header k m) hs"
      using assms by (auto simp: same_header_def intro!: filter_cong)
    then show ?thesis using True km by (simp add: h)
  next
    case False
    then show ?thesis using Cons.IH by (simp add: h)
  qed
qed

lemma headers_get_set_same: "headers_get (replace_header hs name v) name = Some v"
  by (simp add: headers_get_def filter_same_headers_set)

lemma headers_get_set_other:
  "\<not> same_header m name \<Longrightarrow> headers_get (replace_header hs name v) m = headers_get hs m"
  by (simp add: headers_get_def filter_other_headers_set)

lemma proof_not_facilitator: "\<not> same_header ''X-Payment-Proof'' ''X-Payment-Facilitator''"
  by code_simp

subsection \<open>The steps of the interceptor\<close>

lemma handler_fetch_terms:
  assumes "transport e hist \<lparr>url = u, init = i\<rparr> = Resolved response"
    and "status response = 402"
    and "parse402Response ops response u = Some terms"
  shows "handler_fetch ops config e hist u i =
     (if num_gt ops (amountUsd ops terms) (str_toNumber ops (autoPayCeiling config)) then
        (Raised (ceiling_error ops (amountUsd ops terms) (autoPayCeiling config)),
         [EvFetch \<lparr>url = u, init = i\<rparr>])
      else
        (let request = handler_payment ops config u terms;
             paid = pay ops (PayBotClient config) e (hist @ [\<lparr>url = u, init = i\<rparr>]) request;
             events = EvFetch \<lparr>url = u, init = i\<rparr> # EvPay request # map EvFetch (snd paid)
         in case fst paid of
              Raised err \<Rightarrow> (Raised err, events)
            | Returned result \<Rightarrow>
                if \<not> success result then
                  (case opt_String ops (error result) of
                     Inl err \<Rightarrow> (Raised err, events)
                   | Inr message \<Rightarrow>
                       (Raised (JsError (''x402: Payment failed: '' @ message)), events))
                else
                  (case retry_request ops u i (txHash result) of
                     Inl err \<Rightarrow> (Raised err, events)
                   | Inr q \<Rightarrow>
                       (case transport e (hist @ \<lparr>url = u, init = i\<rparr> # snd paid) q of
                          Rejected err \<Rightarrow> (Raised err, events @ [EvFetch q])
                        | Resolved retried \<Rightarrow> (Returned retried, events @ [EvFetch q])))))"
  using assms by (simp add: handler_fetch_def Let_def)

lemma handler_fetch_no_terms:
  assumes "transport e hist \<lparr>url = u, init = i\<rparr> = Resolved response"
    and "parse402Response ops response u = None"
  shows "handler_fetch ops config e hist u i = (Returned response, [EvFetch \<lparr>url = u, init = i\<rparr>])"
  using assms by (simp add: handler_fetch_def Let_def)

lemma handler_fetch_proceeds:
  assumes "transport e hist \<lparr>url = u, init = i\<rparr> = Resolved response"
    and "status response = 402"
    and "parse402Response ops response u = Some terms"
  shows "if num_gt ops (amountUsd ops terms) (str_toNumber ops (autoPayCeiling config))
         then handler_fetch ops config e hist u i
                = (Raised (ceiling_error ops (amountUsd ops terms) (autoPayCeiling config)),
                   [EvFetch \<lparr>url = u, init = i\<rparr>])
         else take 2 (snd (handler_fetch ops config e hist u i))
                = [EvFetch \<lparr>url = u, init = i\<rparr>, EvPay (handler_payment ops config u terms)]"
  by (simp add: handler_fetch_terms [OF assms] Let_def
      split: completion.splits fetch_result.splits sum.splits)

text \<open>
  C7. When the response is a 402 whose extracted amount, divided by \<open>1e6\<close>, is greater than
  the ceiling (\<open>1.00\<close> unless configured), the interceptor raises the error that names
  the amount and the ceiling, and the only event is the original request: the payment
  is not invoked and nothing is retried.
\<close>

theorem ceiling_exceeded_aborts:
  assumes "transport e hist \<lparr>url = u, init = i\<rparr> = Resolved response"
    and "status response = 402"
    and "parse402Response ops response u = Some terms"
    and "num_gt ops (num_div ops (str_toNumber ops (termsAmount terms)) (num_of_nat ops 1000000))
           (str_toNumber ops (case maxAutoPay config of None \<Rightarrow> ''1.00'' | Some m \<Rightarrow> m))"
  shows "handler_fetch ops config e hist u i
       = (Raised (JsError (''x402: Payment of $'' @
                    num_toFixed ops (num_div ops (str_toNumber ops (termsAmount terms))
                                       (num_of_nat ops 1000000)) 2 @
                    '' exceeds auto-pay limit of $'' @
                    (case maxAutoPay config of None \<Rightarrow> ''1.00'' | Some m \<Rightarrow> m))),
          [EvFetch \<lparr>url = u, init = i\<rparr>])"
  using assms(4)
  by (simp add: handler_fetch_terms [OF assms(1-3)] amountUsd_def autoPayCeiling_def
      ceiling_error_def)

lemma dec_ops_simps:
  "num_of_nat dec_ops n = Some (of_nat n)"
  "num_truthy dec_ops x = (case x of None \<Rightarrow> False | Some r \<Rightarrow> r \<noteq> 0)"
  "num_isFinite dec_ops x = (x \<noteq> None)"
  "num_toString dec_ops = dec_toString"
  "str_toNumber dec_ops = dec_Number"
  "num_div dec_ops x y = (case (x, y) of
                            (Some a, Some b) \<Rightarrow> if b = 0 then None else Some (a / b)
                          | _ \<Rightarrow> None)"
  "num_gt dec_ops x y = (case (x, y) of (Some a, Some b) \<Rightarrow> b < a | _ \<Rightarrow> False)"
  "num_toFixed dec_ops = dec_toFixed"
  by (simp_all add: dec_ops_def)

theorem ceiling_exceeded_aborts_witness:
  "handler_fetch dec_ops (example_config None)
     (example_env [Resolved (json_response 402 []
        (JObj [(''paymentRequirements'',
                JObj [(''amount'', JStr ''2000000''), (''payTo'', JStr ''0xB0B'')])]))])
     [] ''https://api.example.com/data'' None
   = (Raised (JsError ''x402: Payment of $2.00 exceeds auto-pay limit of $1.00''),
      [EvFetch \<lparr>url = ''https://api.example.com/data'', init = None\<rparr>])"
proof -
  let ?resp = "json_response 402 []
        (JObj [(''paymentRequirements'',
                JObj [(''amount'', JStr ''2000000''), (''payTo'', JStr ''0xB0B'')])])
        :: real option response"
  let ?u = "''https://api.example.com/data''"
  let ?terms = "\<lparr>termsAmount = ''2000000'', termsPayTo = ''0xB0B''\<rparr>"
  have tr: "transport (example_env [Resolved ?resp]) [] \<lparr>url = ?u, init = None\<rparr> = Resolved ?resp"
    by (simp add: example_env_def scripted_def)
  have st: "status ?resp = 402"
    by (simp add: json_response_def)
  have pa: "parse402Response dec_ops ?resp ?u = Some ?terms"
    by (simp add: parse402Response_def json_response_def js_get_def)
  have gt: "num_gt dec_ops
              (num_div dec_ops (str_toNumber dec_ops (termsAmount ?terms))
                 (num_of_nat dec_ops 1000000))
              (str_toNumber dec_ops
                 (case maxAutoPay (example_config None) of None \<Rightarrow> ''1.00'' | Some m \<Rightarrow> m))"
    by (simp add: example_config_def dec_eval)
  have fx: "num_toFixed dec_ops
              (num_div dec_ops (str_toNumber dec_ops (termsAmount ?terms))
                 (num_of_nat dec_ops 1000000)) 2 = ''2.00''"
    by (simp add: dec_eval)
  show ?thesis
    using ceiling_exceeded_aborts [OF tr st pa gt] fx
    by (simp add: example_config_def)
qed

subsection \<open>The retried request\<close>

lemma token_names:
  "valid_header_name ''X-Payment-Proof''"
  "valid_header_name ''X-Payment-Facilitator''"
  "normalize_header_value ''paybot'' = ''paybot''"
  "valid_header_value ''paybot''"
  by code_simp+

lemma reference_string:
  "js_String ops (nullish_or tx (JStr [])) =
     (case tx of
        None \<Rightarrow> Inr []
      | Some JNull \<Rightarrow> Inr []
      | Some (JStr h) \<Rightarrow> Inr h
      | Some v \<Rightarrow> js_String ops v)"
  by (cases "(tx, JStr [] :: 'a json)" rule: nullish_or.cases) auto

lemma retry_request_valid:
  assumes "Headers_new (caller_headers i) = Inr base"
    and "js_String ops (nullish_or tx (JStr [])) = Inr s"
    and "valid_header_value (normalize_header_value s)"
  shows "retry_request ops u i tx
       = Inr \<lparr>url = u,
              init = Some ((spread_init i)
                \<lparr>init_headers := Some (replace_header
                    (replace_header base ''X-Payment-Proof'' (normalize_header_value s))
                    ''X-Payment-Facilitator'' ''paybot'')\<rparr>)\<rparr>"
  using assms by (simp add: retry_request_def Headers_set_def token_names)

lemma retry_request_invalid:
  assumes "(\<exists>err. Headers_new (caller_headers i) = Inl err)
         \<or> (\<exists>err. js_String ops (nullish_or tx (JStr [])) = Inl err)
         \<or> (\<exists>s. js_String ops (nullish_or tx (JStr [])) = Inr s
                \<and> \<not> valid_header_value (normalize_header_value s))"
  shows "\<exists>err. retry_request ops u i tx = Inl err"
  using assms by (auto simp: retry_request_def Headers_set_def split: sum.splits)

text \<open>
  C8, as the code has it. When the payment succeeded, the interceptor builds the retried
  request, and then either raises, with no request after the payment, or issues that one
  request and gives what it gives, whatever its status. The request is built when the
  caller's headers are valid, the transaction reference has a string (the empty string
  when it is undefined or \<open>null\<close>, itself when it is a string) and that string, with
  surrounding white space removed, is a valid header value: it is then the original URL
  with the caller's options, whose headers are the caller's with \<open>X-Payment-Proof\<close> set
  to that string without the surrounding white space and \<open>X-Payment-Facilitator\<close> set to
  \<open>paybot\<close>. Otherwise building it raises.
\<close>

theorem retry_after_payment:
  assumes "transport e hist \<lparr>url = u, init = i\<rparr> = Resolved response"
    and "status response = 402"
    and "parse402Response ops response u = Some terms"
    and "\<not> num_gt ops (amountUsd ops terms) (str_toNumber ops (autoPayCeiling config))"
    and "pay ops (PayBotClient config) e (hist @ [\<lparr>url = u, init = i\<rparr>])
           (handler_payment ops config u terms) = (Returned result, reqs)"
    and "success result"
  shows "handler_fetch ops config e hist u i
        = (case retry_request ops u i (txHash result) of
             Inl err \<Rightarrow>
               (Raised err,
                EvFetch \<lparr>url = u, init = i\<rparr> # EvPay (handler_payment ops config u terms)
                  # map EvFetch reqs)
           | Inr q \<Rightarrow>
               ((case transport e (hist @ \<lparr>url = u, init = i\<rparr> # reqs) q of
                   Rejected err \<Rightarrow> Raised err
                 | Resolved retried \<Rightarrow> Returned retried),
                EvFetch \<lparr>url = u, init = i\<rparr> # EvPay (handler_payment ops config u terms)
                  # map EvFetch reqs @ [EvFetch q]))
    \<and> (\<forall>base s.
          Headers_new (case i of
                         None \<Rightarrow> []
                       | Some x \<Rightarrow> (case init_headers x of None \<Rightarrow> [] | Some h \<Rightarrow> h))
            = Inr base
          \<and> (case txHash result of
                None \<Rightarrow> Inr []
              | Some JNull \<Rightarrow> Inr []
              | Some (JStr h) \<Rightarrow> Inr h
              | Some v \<Rightarrow> js_String ops v) = Inr s
          \<and> valid_header_value (normalize_header_value s)
        \<longrightarrow> (\<exists>q hs. retry_request ops u i (txHash result) = Inr q
              \<and> url q = u
              \<and> init q = Some ((case i of
                                  None \<Rightarrow> \<lparr>init_method = None, init_headers = None,
                                            init_body = None, init_others = []\<rparr>
                                | Some x \<Rightarrow> x)\<lparr>init_headers := Some hs\<rparr>)
              \<and> headers_get hs ''X-Payment-Proof'' = Some (normalize_header_value s)
              \<and> headers_get hs ''X-Payment-Facilitator'' = Some ''paybot''
              \<and> (\<forall>m. \<not> same_header m ''X-Payment-Proof''
                     \<and> \<not> same_header m ''X-Payment-Facilitator''
                   \<longrightarrow> headers_get hs m = headers_get base m)))
    \<and> ((\<exists>err. Headers_new (case i of
                              None \<Rightarrow> []
                            | Some x \<Rightarrow> (case init_headers x of None \<Rightarrow> [] | Some h \<Rightarrow> h))
                 = Inl err)
        \<or> (\<exists>err. (case txHash result of
                     None \<Rightarrow> Inr []
                   | Some JNull \<Rightarrow> Inr []
                   | Some (JStr h) \<Rightarrow> Inr h
                   | Some v \<Rightarrow> js_String ops v) = Inl err)
        \<or> (\<exists>s. (case txHash result of
                   None \<Rightarrow> Inr []
                 | Some JNull \<Rightarrow> Inr []
                 | Some (JStr h) \<Rightarrow> Inr h
                 | Some v \<Rightarrow> js_String ops v) = Inr s
               \<and> \<not> valid_header_value (normalize_header_value s))
       \<longrightarrow> (\<exists>err. retry_request ops u i (txHash result) = Inl err))"
proof (intro conjI allI impI)
  show "handler_fetch ops config e hist u i
        = (case retry_request ops u i (txHash result) of
             Inl err \<Rightarrow>
               (Raised err,
                EvFetch \<lparr>url = u, init = i\<rparr> # EvPay (handler_payment ops config u terms)
                  # map EvFetch reqs)
           | Inr q \<Rightarrow>
               ((case transport e (hist @ \<lparr>url = u, init = i\<rparr> # reqs) q of
                   Rejected err \<Rightarrow> Raised err
                 | Resolved retried \<Rightarrow> Returned retried),
                EvFetch \<lparr>url = u, init = i\<rparr> # EvPay (handler_payment ops config u terms)
                  # map EvFetch reqs @ [EvFetch q]))"
    using assms(4,5,6)
    by (simp add: handler_fetch_terms [OF assms(1-3)] Let_def
        split: sum.splits fetch_result.splits)
next
  fix base s
  let ?hs = "replace_header (replace_header base ''X-Payment-Proof'' (normalize_header_value s))
               ''X-Payment-Facilitator'' ''paybot''"
  assume h: "Headers_new (case i of
                         None \<Rightarrow> []
                       | Some x \<Rightarrow> (case init_headers x of None \<Rightarrow> [] | Some h \<Rightarrow> h))
            = Inr base
          \<and> (case txHash result of
                None \<Rightarrow> Inr []
              | Some JNull \<Rightarrow> Inr []
              | Some (JStr h) \<Rightarrow> Inr h
              | Some v \<Rightarrow> js_String ops v) = Inr s
          \<and> valid_header_value (normalize_header_value s)"
  then have q: "retry_request ops u i (txHash result)
       = Inr \<lparr>url = u, init = Some ((spread_init i)\<lparr>init_headers := Some ?hs\<rparr>)\<rparr>"
    by (intro retry_request_valid) (simp_all add: caller_headers_def reference_string)
  have p: "headers_get ?hs ''X-Payment-Proof'' = Some (normalize_header_value s)"
    using proof_not_facilitator
    by (simp add: headers_get_set_other headers_get_set_same)
  have f: "headers_get ?hs ''X-Payment-Facilitator'' = Some ''paybot''"
    by (rule headers_get_set_same)
  have o: "headers_get ?hs m = headers_get base m"
    if "\<not> same_header m ''X-Payment-Proof'' \<and> \<not> same_header m ''X-Payment-Facilitator''" for m
    using that by (simp add: headers_get_set_other)
  show "\<exists>q hs. retry_request ops u i (txHash result) = Inr q
              \<and> url q = u
              \<and> init q = Some ((case i of
                                  None \<Rightarrow> \<lparr>init_method = None, init_headers = None,
                                            init_body = None, init_others = []\<rparr>
                                | Some x \<Rightarrow> x)\<lparr>init_headers := Some hs\<rparr>)
              \<and> headers_get hs ''X-Payment-Proof'' = Some (normalize_header_value s)
              \<and> headers_get hs ''X-Payment-Facilitator'' = Some ''paybot''
              \<and> (\<forall>m. \<not> same_header m ''X-Payment-Proof''
                     \<and> \<not> same_header m ''X-Payment-Facilitator''
                   \<longrightarrow> headers_get hs m = headers_get base m)"
    using q p f o
    by (intro exI [of _ "\<lparr>url = u, init = Some ((spread_init i)\<lparr>init_headers := Some ?hs\<rparr>)\<rparr>"]
        exI [of _ ?hs]) (simp add: spread_init_def)
next
  assume "(\<exists>err. Headers_new (case i of
                              None \<Rightarrow> []
                            | Some x \<Rightarrow> (case init_headers x of None \<Rightarrow> [] | Some h \<Rightarrow> h))
                 = Inl err)
        \<or> (\<exists>err. (case txHash result of
                     None \<Rightarrow> Inr []
                   | Some JNull \<Rightarrow> Inr []
                   | Some (JStr h) \<Rightarrow> Inr h
                   | Some v \<Rightarrow> js_String ops v) = Inl err)
        \<or> (\<exists>s. (case txHash result of
                   None \<Rightarrow> Inr []
                 | Some JNull \<Rightarrow> Inr []
                 | Some (JStr h) \<Rightarrow> Inr h
                 | Some v \<Rightarrow> js_String ops v) = Inr s
               \<and> \<not> valid_header_value (normalize_header_value s))"
  then show "\<exists>err. retry_request ops u i (txHash result) = Inl err"
    by (intro retry_request_invalid) (simp add: caller_headers_def reference_string)
qed

lemma example_payment:
  "fst (pay dec_ops (PayBotClient (example_config None))
          (example_env (first
             # Resolved (json_response 200 [] (JObj [(''settlementToken'', JStr ''tok-1'')]))
             # Resolved (json_response 200 [] (JObj [(''transaction'', tx)]))
             # others))
          [q0] request)
   = Returned \<lparr>success = True, txHash = Some tx,
                grossAmount = ''0'', netAmount = ''0'', commissionAmount = ''0'',
                commissionRate = Some 0, resultNetwork = None,
                error = None, errorCode = None, errorDetails = None\<rparr>
   \<and> length (snd (pay dec_ops (PayBotClient (example_config None))
          (example_env (first
             # Resolved (json_response 200 [] (JObj [(''settlementToken'', JStr ''tok-1'')]))
             # Resolved (json_response 200 [] (JObj [(''transaction'', tx)]))
             # others))
          [q0] request)) = 2"
  by (simp add: pay_fst pay_snd pay_try_def buildPaymentPayload_def PayBotClient_def
      example_config_def example_env_def scripted_def json_response_def response_ok_def
      js_get_def success_result_def dec_ops_simps Let_def)

lemma example_terms:
  "parse402Response dec_ops
     (json_response 402 []
        (JObj [(''paymentRequirements'',
                JObj [(''amount'', JStr ''10000''), (''payTo'', JStr ''0xB0B'')])]))
     u
   = Some \<lparr>termsAmount = ''10000'', termsPayTo = ''0xB0B''\<rparr>"
  by (simp add: parse402Response_def json_response_def js_get_def)

lemma example_within_ceiling:
  "\<not> num_gt dec_ops (amountUsd dec_ops \<lparr>termsAmount = ''10000'', termsPayTo = ''0xB0B''\<rparr>)
       (str_toNumber dec_ops (autoPayCeiling (example_config None)))"
  by (simp add: amountUsd_def autoPayCeiling_def example_config_def dec_eval)

theorem retry_after_payment_witness:
  "handler_fetch dec_ops (example_config None)
     (example_env
        [Resolved (json_response 402 []
           (JObj [(''paymentRequirements'',
                   JObj [(''amount'', JStr ''10000''), (''payTo'', JStr ''0xB0B'')])])),
         Resolved (json_response 200 [] (JObj [(''settlementToken'', JStr ''tok-1'')])),
         Resolved (json_response 200 [] (JObj [(''transaction'', JStr ''0xabc '')])),
         Resolved (json_response 402 [] (JObj []))])
     [] ''https://api.example.com/data''
     (Some \<lparr>init_method = Some ''GET'',
            init_headers = Some [(''Accept'', ''application/json'')],
            init_body = None, init_others = [(''mode'', ''cors'')]\<rparr>)
   = (Returned (json_response 402 [] (JObj [])),
      EvFetch \<lparr>url = ''https://api.example.com/data'',
               init = Some \<lparr>init_method = Some ''GET'',
                            init_headers = Some [(''Accept'', ''application/json'')],
                            init_body = None, init_others = [(''mode'', ''cors'')]\<rparr>\<rparr>
      # EvPay \<lparr>resource = ''https://api.example.com/data'', amount = ''0.010000'',
                payTo = ''0xB0B'', tokenContract = None, network = None\<rparr>
      # map EvFetch (snd (pay dec_ops (PayBotClient (example_config None))
          (example_env
            [Resolved (json_response 402 []
               (JObj [(''paymentRequirements'',
                       JObj [(''amount'', JStr ''10000''), (''payTo'', JStr ''0xB0B'')])])),
             Resolved (json_response 200 [] (JObj [(''settlementToken'', JStr ''tok-1'')])),
             Resolved (json_response 200 [] (JObj [(''transaction'', JStr ''0xabc '')])),
             Resolved (json_response 402 [] (JObj []))])
          [\<lparr>url = ''https://api.example.com/data'',
            init = Some \<lparr>init_method = Some ''GET'',
                         init_headers = Some [(''Accept'', ''application/json'')],
                         init_body = None, init_others = [(''mode'', ''cors'')]\<rparr>\<rparr>]
          \<lparr>resource = ''https://api.example.com/data'', amount = ''0.010000'',
            payTo = ''0xB0B'', tokenContract = None, network = None\<rparr>))
      @ [EvFetch \<lparr>url = ''https://api.example.com/data'',
                  init = Some \<lparr>init_method = Some ''GET'',
                               init_headers = Some [(''Accept'', ''application/json''),
                                                    (''X-Payment-Proof'', ''0xabc''),
                                                    (''X-Payment-Facilitator'', ''paybot'')],
                               init_body = None, init_others = [(''mode'', ''cors'')]\<rparr>\<rparr>])"
proof -
  let ?first = "Resolved (json_response 402 []
           (JObj [(''paymentRequirements'',
                   JObj [(''amount'', JStr ''10000''), (''payTo'', JStr ''0xB0B'')])]))
           :: real option fetch_result"
  let ?final = "json_response 402 [] (JObj []) :: real option response"
  let ?e = "example_env
        [?first,
         Resolved (json_response 200 [] (JObj [(''settlementToken'', JStr ''tok-1'')])),
         Resolved (json_response 200 [] (JObj [(''transaction'', JStr ''0xabc '')])),
         Resolved ?final]"
  let ?u = "''https://api.example.com/data''"
  let ?i = "Some \<lparr>init_method = Some ''GET'',
            init_headers = Some [(''Accept'', ''application/json'')],
            init_body = None, init_others = [(''mode'', ''cors'')]\<rparr>"
  let ?orig = "\<lparr>url = ?u, init = ?i\<rparr>"
  let ?terms = "\<lparr>termsAmount = ''10000'', termsPayTo = ''0xB0B''\<rparr>"
  let ?cfg = "example_config None"
  let ?request = "\<lparr>resource = ?u, amount = ''0.010000'', payTo = ''0xB0B'',
                    tokenContract = None, network = None\<rparr>"
  let ?paid = "pay dec_ops (PayBotClient ?cfg) ?e [?orig] (handler_payment dec_ops ?cfg ?u ?terms)"
  let ?result = "\<lparr>success = True, txHash = Some (JStr ''0xabc ''),
                  grossAmount = ''0'', netAmount = ''0'', commissionAmount = ''0'',
                  commissionRate = Some 0, resultNetwork = None,
                  error = None, errorCode = None, errorDetails = None\<rparr> :: real option PaymentResult"
  let ?q = "\<lparr>url = ?u,
             init = Some \<lparr>init_method = Some ''GET'',
                          init_headers = Some [(''Accept'', ''application/json''),
                                               (''X-Payment-Proof'', ''0xabc''),
                                               (''X-Payment-Facilitator'', ''paybot'')],
                          init_body = None, init_others = [(''mode'', ''cors'')]\<rparr>\<rparr>"
  have tr: "transport ?e [] ?orig = ?first"
    by (simp add: example_env_def scripted_def)
  have st: "status (json_response 402 []
           (JObj [(''paymentRequirements'',
                   JObj [(''amount'', JStr ''10000''), (''payTo'', JStr ''0xB0B'')])])
           :: real option response) = 402"
    by (simp add: json_response_def)
  have rq: "handler_payment dec_ops ?cfg ?u ?terms = ?request"
    by (simp add: handler_payment_def amountUsd_def example_config_def dec_eval)
  have f: "fst ?paid = Returned ?result" and len: "length (snd ?paid) = 2"
    using example_payment [of ?first "JStr ''0xabc ''" "[Resolved ?final]" ?orig
        "handler_payment dec_ops ?cfg ?u ?terms"]
    by simp_all
  from f have "?paid = (Returned ?result, snd ?paid)"
    by (metis prod.collapse)
  then have paid: "pay dec_ops (PayBotClient ?cfg) ?e ([] @ [?orig])
      (handler_payment dec_ops ?cfg ?u ?terms) = (Returned ?result, snd ?paid)"
    by simp
  have ok: "success ?result" by simp
  have hn: "Headers_new [(''Accept'', ''application/json'')]
            = Inr [(''Accept'', ''application/json'')]"
    by code_simp
  have h1: "Headers_set [(''Accept'', ''application/json'')] ''X-Payment-Proof'' ''0xabc ''
            = Inr [(''Accept'', ''application/json''), (''X-Payment-Proof'', ''0xabc'')]"
    by code_simp
  have h2: "Headers_set [(''Accept'', ''application/json''), (''X-Payment-Proof'', ''0xabc'')]
              ''X-Payment-Facilitator'' ''paybot''
            = Inr [(''Accept'', ''application/json''), (''X-Payment-Proof'', ''0xabc''),
                   (''X-Payment-Facilitator'', ''paybot'')]"
    by code_simp
  have retry: "retry_request dec_ops ?u ?i (Some (JStr ''0xabc '')) = Inr ?q"
    by (simp add: retry_request_def caller_headers_def spread_init_def hn h1 h2)
  have last: "transport ?e (?orig # snd ?paid) ?q = Resolved ?final"
    using len by (simp add: example_env_def scripted_def)
  from retry_after_payment [OF tr st example_terms example_within_ceiling paid ok]
  have "handler_fetch dec_ops ?cfg ?e [] ?u ?i
        = (Returned ?final,
           EvFetch ?orig # EvPay (handler_payment dec_ops ?cfg ?u ?terms)
             # map EvFetch (snd ?paid) @ [EvFetch ?q])"
    by (simp add: retry last)
  then show ?thesis
    by (simp add: rq)
qed

text \<open>
  C8 as the claim states it fails where the transaction reference is not a valid header
  value: the payment succeeds with the reference \<open>a\<close>, line feed, \<open>b\<close>, setting the
  header raises, and the events end with the two requests of the payment: nothing is
  retried.
\<close>

theorem invalid_reference_no_retry_counterexample:
  "fst (pay dec_ops (PayBotClient (example_config None))
          (example_env
            [Resolved (json_response 402 []
               (JObj [(''paymentRequirements'',
                       JObj [(''amount'', JStr ''10000''), (''payTo'', JStr ''0xB0B'')])])),
             Resolved (json_response 200 [] (JObj [(''settlementToken'', JStr ''tok-1'')])),
             Resolved (json_response 200 []
               (JObj [(''transaction'', JStr [CHR ''a'', CHR 0x0A, CHR ''b''])])),
             Resolved (json_response 200 [] (JObj []))])
          [\<lparr>url = ''https://api.example.com/data'', init = None\<rparr>]
          \<lparr>resource = ''https://api.example.com/data'', amount = ''0.010000'',
            payTo = ''0xB0B'', tokenContract = None, network = None\<rparr>)
   = Returned \<lparr>success = True, txHash = Some (JStr [CHR ''a'', CHR 0x0A, CHR ''b'']),
                grossAmount = ''0'', netAmount = ''0'', commissionAmount = ''0'',
                commissionRate = Some 0, resultNetwork = None,
                error = None, errorCode = None, errorDetails = None\<rparr>
   \<and> handler_fetch dec_ops (example_config None)
        (example_env
          [Resolved (json_response 402 []
             (JObj [(''paymentRequirements'',
                     JObj [(''amount'', JStr ''10000''), (''payTo'', JStr ''0xB0B'')])])),
           Resolved (json_response 200 [] (JObj [(''settlementToken'', JStr ''tok-1'')])),
           Resolved (json_response 200 []
             (JObj [(''transaction'', JStr [CHR ''a'', CHR 0x0A, CHR ''b''])])),
           Resolved (json_response 200 [] (JObj []))])
        [] ''https://api.example.com/data'' None
      = (Raised (JsError ''Invalid header: X-Payment-Proof''),
         EvFetch \<lparr>url = ''https://api.example.com/data'', init = None\<rparr>
         # EvPay \<lparr>resource = ''https://api.example.com/data'', amount = ''0.010000'',
                   payTo = ''0xB0B'', tokenContract = None, network = None\<rparr>
         # map EvFetch (snd (pay dec_ops (PayBotClient (example_config None))
             (example_env
               [Resolved (json_response 402 []
                  (JObj [(''paymentRequirements'',
                          JObj [(''amount'', JStr ''10000''), (''payTo'', JStr ''0xB0B'')])])),
                Resolved (json_response 200 [] (JObj [(''settlementToken'', JStr ''tok-1'')])),
                Resolved (json_response 200 []
                  (JObj [(''transaction'', JStr [CHR ''a'', CHR 0x0A, CHR ''b''])])),
                Resolved (json_response 200 [] (JObj []))])
             [\<lparr>url = ''https://api.example.com/data'', init = None\<rparr>]
             \<lparr>resource = ''https://api.example.com/data'', amount = ''0.010000'',
               payTo = ''0xB0B'', tokenContract = None, network = None\<rparr>)))"
proof -
  let ?first = "Resolved (json_response 402 []
           (JObj [(''paymentRequirements'',
                   JObj [(''amount'', JStr ''10000''), (''payTo'', JStr ''0xB0B'')])]))
           :: real option fetch_result"
  let ?tx = "JStr [CHR ''a'', CHR 0x0A, CHR ''b''] :: real option json"
  let ?e = "example_env
        [?first,
         Resolved (json_response 200 [] (JObj [(''settlementToken'', JStr ''tok-1'')])),
         Resolved (json_response 200 [] (JObj [(''transaction'', ?tx)])),
         Resolved (json_response 200 [] (JObj []))]"
  let ?u = "''https://api.example.com/data''"
  let ?orig = "\<lparr>url = ?u, init = None\<rparr>"
  let ?terms = "\<lparr>termsAmount = ''10000'', termsPayTo = ''0xB0B''\<rparr>"
  let ?cfg = "example_config None"
  let ?request = "\<lparr>resource = ?u, amount = ''0.010000'', payTo = ''0xB0B'',
                    tokenContract = None, network = None\<rparr>"
  let ?paid = "pay dec_ops (PayBotClient ?cfg) ?e [?orig] ?request"
  let ?result = "\<lparr>success = True, txHash = Some ?tx,
                  grossAmount = ''0'', netAmount = ''0'', commissionAmount = ''0'',
                  commissionRate = Some 0, resultNetwork = None,
                  error = None, errorCode = None, errorDetails = None\<rparr> :: real option PaymentResult"
  have tr: "transport ?e [] ?orig = ?first"
    by (simp add: example_env_def scripted_def)
  have st: "status (json_response 402 []
           (JObj [(''paymentRequirements'',
                   JObj [(''amount'', JStr ''10000''), (''payTo'', JStr ''0xB0B'')])])
           :: real option response) = 402"
    by (simp add: json_response_def)
  have rq: "handler_payment dec_ops ?cfg ?u ?terms = ?request"
    by (simp add: handler_payment_def amountUsd_def example_config_def dec_eval)
  have f: "fst ?paid = Returned ?result"
    using example_payment [of ?first ?tx "[Resolved (json_response 200 [] (JObj []))]" ?orig ?request]
    by simp
  have hn: "Headers_new [] = Inr []"
    by (simp add: Headers_new_def)
  have h1: "Headers_set [] ''X-Payment-Proof'' [CHR ''a'', CHR 0x0A, CHR ''b'']
            = Inl (JsError ''Invalid header: X-Payment-Proof'')"
    by code_simp
  have retry: "retry_request dec_ops ?u None (Some ?tx)
               = Inl (JsError ''Invalid header: X-Payment-Proof'')"
    by (simp add: retry_request_def caller_headers_def hn h1)
  have "handler_fetch dec_ops ?cfg ?e [] ?u None
      = (Raised (JsError ''Invalid header: X-Payment-Proof''),
         EvFetch ?orig # EvPay ?request # map EvFetch (snd ?paid))"
    using example_within_ceiling
    by (simp add: handler_fetch_terms [OF tr st example_terms] rq f retry Let_def)
  with f show ?thesis by simp
qed

subsection \<open>Extraction of the payment terms\<close>

lemma parse402Response_undecodable:
  "resp_json response = Inl err \<Longrightarrow> parse402Response ops response u = None"
  by (simp add: parse402Response_def)

lemma parse402Response_null:
  "resp_json response = Inr JNull \<Longrightarrow> parse402Response ops response u = None"
  by (simp add: parse402Response_def js_get_def)

lemma parse402Response_headers:
  assumes "resp_json response = Inr body" and "body \<noteq> JNull"
    and "\<not> opt_truthy ops (js_prop body ''paymentRequirements'')"
    and "\<not> (opt_truthy ops (js_prop body ''amount'') \<and> opt_truthy ops (js_prop body ''payTo''))"
    and "headers_get (resp_headers response) ''X-Payment-Amount'' = Some a" and "a \<noteq> []"
    and "headers_get (resp_headers response) ''X-Payment-Address'' = Some p" and "p \<noteq> []"
  shows "parse402Response ops response u = Some \<lparr>termsAmount = a, termsPayTo = p\<rparr>"
  using assms by (auto simp: parse402Response_def js_get_cases)

lemma parse402Response_requirements:
  assumes "resp_json response = Inr body"
    and "js_prop body ''paymentRequirements'' = Some v" and "js_truthy ops v"
  shows "parse402Response ops response u
       = (case js_String ops (nullish_or (js_prop v ''amount'') (JStr ''0'')) of
            Inl err \<Rightarrow> None
          | Inr a \<Rightarrow>
              (case js_String ops (nullish_or (js_prop v ''payTo'') (JStr [])) of
                 Inl err \<Rightarrow> None
               | Inr p \<Rightarrow> Some \<lparr>termsAmount = a, termsPayTo = p\<rparr>))"
proof -
  from assms(2) have "body \<noteq> JNull" by auto
  then show ?thesis
    using assms by (simp add: parse402Response_def js_get_cases cong: sum.case_cong)
qed

text \<open>
  C6, as the code has it. Let a 402 response carry non-empty \<open>X-Payment-Amount\<close> and
  \<open>X-Payment-Address\<close> headers. When its body decodes to a JSON value other than
  \<open>null\<close> that matches neither body format, the terms are the two header values, and the
  interceptor goes on: it raises the ceiling error when the amount exceeds the ceiling and
  otherwise invokes the payment with those terms. When the body does not decode, or
  decodes to \<open>null\<close>, the headers are not read: there are no terms, and the interceptor
  returns the original response having done nothing else.
\<close>

theorem header_terms_need_decodable_body:
  assumes "transport e hist \<lparr>url = u, init = i\<rparr> = Resolved response"
    and "status response = 402"
    and "headers_get (resp_headers response) ''X-Payment-Amount'' = Some a" and "a \<noteq> []"
    and "headers_get (resp_headers response) ''X-Payment-Address'' = Some p" and "p \<noteq> []"
  shows "(\<forall>body. resp_json response = Inr body \<and> body \<noteq> JNull
            \<and> \<not> opt_truthy ops (js_prop body ''paymentRequirements'')
            \<and> \<not> (opt_truthy ops (js_prop body ''amount'')
                  \<and> opt_truthy ops (js_prop body ''payTo''))
          \<longrightarrow> parse402Response ops response u = Some \<lparr>termsAmount = a, termsPayTo = p\<rparr>
            \<and> (if num_gt ops (amountUsd ops \<lparr>termsAmount = a, termsPayTo = p\<rparr>)
                     (str_toNumber ops (autoPayCeiling config))
               then handler_fetch ops config e hist u i
                      = (Raised (ceiling_error ops
                                   (amountUsd ops \<lparr>termsAmount = a, termsPayTo = p\<rparr>)
                                   (autoPayCeiling config)),
                         [EvFetch \<lparr>url = u, init = i\<rparr>])
               else take 2 (snd (handler_fetch ops config e hist u i))
                      = [EvFetch \<lparr>url = u, init = i\<rparr>,
                         EvPay (handler_payment ops config u
                                  \<lparr>termsAmount = a, termsPayTo = p\<rparr>)]))
       \<and> ((resp_json response = Inr JNull \<or> (\<exists>err. resp_json response = Inl err))
          \<longrightarrow> parse402Response ops response u = None
            \<and> handler_fetch ops config e hist u i
                = (Returned response, [EvFetch \<lparr>url = u, init = i\<rparr>]))"
proof (intro conjI allI impI)
  fix body
  assume b: "resp_json response = Inr body \<and> body \<noteq> JNull
            \<and> \<not> opt_truthy ops (js_prop body ''paymentRequirements'')
            \<and> \<not> (opt_truthy ops (js_prop body ''amount'')
                  \<and> opt_truthy ops (js_prop body ''payTo''))"
  then show pa: "parse402Response ops response u = Some \<lparr>termsAmount = a, termsPayTo = p\<rparr>"
    using parse402Response_headers [of response body ops a p u] assms(3-6) by blast
  show "if num_gt ops (amountUsd ops \<lparr>termsAmount = a, termsPayTo = p\<rparr>)
                     (str_toNumber ops (autoPayCeiling config))
               then handler_fetch ops config e hist u i
                      = (Raised (ceiling_error ops
                                   (amountUsd ops \<lparr>termsAmount = a, termsPayTo = p\<rparr>)
                                   (autoPayCeiling config)),
                         [EvFetch \<lparr>url = u, init = i\<rparr>])
               else take 2 (snd (handler_fetch ops config e hist u i))
                      = [EvFetch \<lparr>url = u, init = i\<rparr>,
                         EvPay (handler_payment ops config u
                                  \<lparr>termsAmount = a, termsPayTo = p\<rparr>)]"
    by (rule handler_fetch_proceeds [OF assms(1,2) pa])
next
  assume "resp_json response = Inr JNull \<or> (\<exists>err. resp_json response = Inl err)"
  then show n: "parse402Response ops response u = None"
    using parse402Response_null parse402Response_undecodable by blast
  show "handler_fetch ops config e hist u i
          = (Returned response, [EvFetch \<lparr>url = u, init = i\<rparr>])"
    by (rule handler_fetch_no_terms [OF assms(1) n])
qed

theorem header_terms_need_decodable_body_witness:
  "parse402Response dec_ops
     (json_response 402 [(''x-payment-amount'', ''10000''), (''X-Payment-Address'', ''0xB0B'')]
        (JObj []))
     ''https://api.example.com/data''
   = Some \<lparr>termsAmount = ''10000'', termsPayTo = ''0xB0B''\<rparr>
   \<and> take 2 (snd (handler_fetch dec_ops (example_config None)
        (example_env [Resolved (json_response 402
           [(''x-payment-amount'', ''10000''), (''X-Payment-Address'', ''0xB0B'')] (JObj []))])
        [] ''https://api.example.com/data'' None))
   = [EvFetch \<lparr>url = ''https://api.example.com/data'', init = None\<rparr>,
      EvPay \<lparr>resource = ''https://api.example.com/data'', amount = ''0.010000'',
             payTo = ''0xB0B'', tokenContract = None, network = None\<rparr>]"
proof -
  let ?hs = "[(''x-payment-amount'', ''10000''), (''X-Payment-Address'', ''0xB0B'')]"
  let ?resp = "json_response 402 ?hs (JObj []) :: real option response"
  let ?u = "''https://api.example.com/data''"
  let ?terms = "\<lparr>termsAmount = ''10000'', termsPayTo = ''0xB0B''\<rparr>"
  have tr: "transport (example_env [Resolved ?resp]) [] \<lparr>url = ?u, init = None\<rparr> = Resolved ?resp"
    by (simp add: example_env_def scripted_def)
  have st: "status ?resp = 402"
    by (simp add: json_response_def)
  have "headers_get ?hs ''X-Payment-Amount'' = Some ''10000''"
    by code_simp
  then have ha: "headers_get (resp_headers ?resp) ''X-Payment-Amount'' = Some ''10000''"
    by (simp add: json_response_def)
  have "headers_get ?hs ''X-Payment-Address'' = Some ''0xB0B''"
    by code_simp
  then have hp: "headers_get (resp_headers ?resp) ''X-Payment-Address'' = Some ''0xB0B''"
    by (simp add: json_response_def)
  have body: "resp_json ?resp = Inr (JObj []) \<and> JObj [] \<noteq> (JNull :: real option json)
      \<and> \<not> opt_truthy dec_ops (js_prop (JObj []) ''paymentRequirements'')
      \<and> \<not> (opt_truthy dec_ops (js_prop (JObj []) ''amount'')
            \<and> opt_truthy dec_ops (js_prop (JObj []) ''payTo''))"
    by (simp add: json_response_def)
  have le: "\<not> num_gt dec_ops (amountUsd dec_ops ?terms)
              (str_toNumber dec_ops (autoPayCeiling (example_config None)))"
    by (simp add: amountUsd_def autoPayCeiling_def example_config_def dec_eval)
  have pay: "handler_payment dec_ops (example_config None) ?u ?terms
      = \<lparr>resource = ?u, amount = ''0.010000'', payTo = ''0xB0B'', tokenContract = None,
         network = None\<rparr>"
    by (simp add: handler_payment_def amountUsd_def example_config_def dec_eval)
  show ?thesis
    using header_terms_need_decodable_body
      [OF tr st ha _ hp _, of dec_ops "example_config None"] body le pay
    by auto
qed

text \<open>
  C6 as the claim states it fails when the body is undecodable: a 402 response with both
  headers and a body that is not JSON is returned as it came, and no payment is invoked.
\<close>

theorem header_terms_undecodable_body_counterexample:
  "headers_get (resp_headers (text_response 402
       [(''X-Payment-Amount'', ''10000''), (''X-Payment-Address'', ''0xB0B'')]
       :: real option response)) ''X-Payment-Amount'' = Some ''10000''
   \<and> headers_get (resp_headers (text_response 402
       [(''X-Payment-Amount'', ''10000''), (''X-Payment-Address'', ''0xB0B'')]
       :: real option response)) ''X-Payment-Address'' = Some ''0xB0B''
   \<and> handler_fetch dec_ops (example_config None)
        (example_env [Resolved (text_response 402
           [(''X-Payment-Amount'', ''10000''), (''X-Payment-Address'', ''0xB0B'')])])
        [] ''https://api.example.com/data'' None
      = (Returned (text_response 402
           [(''X-Payment-Amount'', ''10000''), (''X-Payment-Address'', ''0xB0B'')]),
         [EvFetch \<lparr>url = ''https://api.example.com/data'', init = None\<rparr>])"
proof -
  let ?hs = "[(''X-Payment-Amount'', ''10000''), (''X-Payment-Address'', ''0xB0B'')]"
  have "headers_get ?hs ''X-Payment-Amount'' = Some ''10000''"
    by code_simp
  moreover have "headers_get ?hs ''X-Payment-Address'' = Some ''0xB0B''"
    by code_simp
  moreover have "handler_fetch dec_ops (example_config None)
        (example_env [Resolved (text_response 402 ?hs)])
        [] ''https://api.example.com/data'' None
      = (Returned (text_response 402 ?hs),
         [EvFetch \<lparr>url = ''https://api.example.com/data'', init = None\<rparr>])"
    by (simp add: handler_fetch_def parse402Response_def text_response_def example_env_def
        scripted_def)
  ultimately show ?thesis
    by (simp add: text_response_def)
qed

text \<open>
  C10, as the code has it. Let the body of a 402 response be an object whose
  \<open>paymentRequirements\<close> is truthy, as every object is, even an empty one. The amount is
  the string of its \<open>amount\<close>, or of \<open>0\<close> when that is missing or \<open>null\<close>, and the
  payee the string of its \<open>payTo\<close>, or the empty string. Extraction succeeds when both
  conversions do: the defaults \<open>0\<close> and the empty string when both members are missing,
  the members themselves when they are strings. With terms extracted the interceptor does
  not stop at the original response: it raises the ceiling error when the amount exceeds
  the ceiling, and otherwise invokes the payment with those terms. When a conversion
  raises, as for a member that is an object with a \<open>toString\<close> member of its own,
  nothing is extracted and the original response is returned.
\<close>

theorem payment_requirements_defaults:
  assumes "transport e hist \<lparr>url = u, init = i\<rparr> = Resolved response"
    and "status response = 402"
    and "resp_json response = Inr body"
    and "js_prop body ''paymentRequirements'' = Some v"
    and "js_truthy ops v"
  shows "parse402Response ops response u
       = (case js_String ops (case js_prop v ''amount'' of
                                None \<Rightarrow> JStr ''0''
                              | Some JNull \<Rightarrow> JStr ''0''
                              | Some x \<Rightarrow> x) of
            Inl err \<Rightarrow> None
          | Inr a \<Rightarrow>
              (case js_String ops (case js_prop v ''payTo'' of
                                     None \<Rightarrow> JStr []
                                   | Some JNull \<Rightarrow> JStr []
                                   | Some x \<Rightarrow> x) of
                 Inl err \<Rightarrow> None
               | Inr p \<Rightarrow> Some \<lparr>termsAmount = a, termsPayTo = p\<rparr>))
    \<and> (js_prop v ''amount'' = None \<and> js_prop v ''payTo'' = None
        \<longrightarrow> parse402Response ops response u = Some \<lparr>termsAmount = ''0'', termsPayTo = []\<rparr>)
    \<and> (\<forall>a p. js_prop v ''amount'' = Some (JStr a) \<and> js_prop v ''payTo'' = Some (JStr p)
        \<longrightarrow> parse402Response ops response u = Some \<lparr>termsAmount = a, termsPayTo = p\<rparr>)
    \<and> (\<forall>terms. parse402Response ops response u = Some terms
        \<longrightarrow> (if num_gt ops (amountUsd ops terms) (str_toNumber ops (autoPayCeiling config))
             then handler_fetch ops config e hist u i
                    = (Raised (ceiling_error ops (amountUsd ops terms) (autoPayCeiling config)),
                       [EvFetch \<lparr>url = u, init = i\<rparr>])
             else take 2 (snd (handler_fetch ops config e hist u i))
                    = [EvFetch \<lparr>url = u, init = i\<rparr>,
                       EvPay (handler_payment ops config u terms)]))
    \<and> (parse402Response ops response u = None
        \<longrightarrow> handler_fetch ops config e hist u i
            = (Returned response, [EvFetch \<lparr>url = u, init = i\<rparr>]))"
proof -
  note pa = parse402Response_requirements [OF assms(3-5), of u]
  have general: "parse402Response ops response u
       = (case js_String ops (case js_prop v ''amount'' of
                                None \<Rightarrow> JStr ''0''
                              | Some JNull \<Rightarrow> JStr ''0''
                              | Some x \<Rightarrow> x) of
            Inl err \<Rightarrow> None
          | Inr a \<Rightarrow>
              (case js_String ops (case js_prop v ''payTo'' of
                                     None \<Rightarrow> JStr []
                                   | Some JNull \<Rightarrow> JStr []
                                   | Some x \<Rightarrow> x) of
                 Inl err \<Rightarrow> None
               | Inr p \<Rightarrow> Some \<lparr>termsAmount = a, termsPayTo = p\<rparr>))"
    using pa by (simp add: nullish_or_cases cong: sum.case_cong)
  have defaults: "js_prop v ''amount'' = None \<and> js_prop v ''payTo'' = None
        \<longrightarrow> parse402Response ops response u = Some \<lparr>termsAmount = ''0'', termsPayTo = []\<rparr>"
    using pa by simp
  have strings: "js_prop v ''amount'' = Some (JStr a) \<and> js_prop v ''payTo'' = Some (JStr p)
        \<longrightarrow> parse402Response ops response u = Some \<lparr>termsAmount = a, termsPayTo = p\<rparr>"
    for a p
    using pa by simp
  have go: "if num_gt ops (amountUsd ops terms) (str_toNumber ops (autoPayCeiling config))
             then handler_fetch ops config e hist u i
                    = (Raised (ceiling_error ops (amountUsd ops terms) (autoPayCeiling config)),
                       [EvFetch \<lparr>url = u, init = i\<rparr>])
             else take 2 (snd (handler_fetch ops config e hist u i))
                    = [EvFetch \<lparr>url = u, init = i\<rparr>,
                       EvPay (handler_payment ops config u terms)]"
    if "parse402Response ops response u = Some terms" for terms
    by (rule handler_fetch_proceeds [OF assms(1,2) that])
  have stop: "parse402Response ops response u = None
        \<longrightarrow> handler_fetch ops config e hist u i
            = (Returned response, [EvFetch \<lparr>url = u, init = i\<rparr>])"
    using handler_fetch_no_terms [OF assms(1)] by blast
  from general defaults strings go stop show ?thesis by blast
qed

theorem payment_requirements_defaults_witness:
  "parse402Response dec_ops
     (json_response 402 [] (JObj [(''paymentRequirements'', JObj [])]))
     ''https://api.example.com/data''
   = Some \<lparr>termsAmount = ''0'', termsPayTo = []\<rparr>
   \<and> take 2 (snd (handler_fetch dec_ops (example_config None)
        (example_env [Resolved (json_response 402 []
           (JObj [(''paymentRequirements'', JObj [])]))])
        [] ''https://api.example.com/data'' None))
   = [EvFetch \<lparr>url = ''https://api.example.com/data'', init = None\<rparr>,
      EvPay \<lparr>resource = ''https://api.example.com/data'', amount = ''0.000000'',
             payTo = [], tokenContract = None, network = None\<rparr>]"
proof -
  let ?body = "JObj [(''paymentRequirements'', JObj [])] :: real option json"
  let ?resp = "json_response 402 [] ?body"
  let ?u = "''https://api.example.com/data''"
  let ?terms = "\<lparr>termsAmount = ''0'', termsPayTo = []\<rparr>"
  have tr: "transport (example_env [Resolved ?resp]) [] \<lparr>url = ?u, init = None\<rparr> = Resolved ?resp"
    by (simp add: example_env_def scripted_def)
  have st: "status ?resp = 402"
    by (simp add: json_response_def)
  have bo: "resp_json ?resp = Inr ?body"
    by (simp add: json_response_def)
  have pr: "js_prop ?body ''paymentRequirements'' = Some (JObj [])"
    by simp
  have ty: "js_truthy dec_ops (JObj [] :: real option json)"
    by simp
  note main = payment_requirements_defaults [OF tr st bo pr ty, of "example_config None"]
  from main have pa: "parse402Response dec_ops ?resp ?u = Some ?terms"
    by simp
  from main pa
  have go: "if num_gt dec_ops (amountUsd dec_ops ?terms)
                 (str_toNumber dec_ops (autoPayCeiling (example_config None)))
         then handler_fetch dec_ops (example_config None) (example_env [Resolved ?resp]) [] ?u None
                = (Raised (ceiling_error dec_ops (amountUsd dec_ops ?terms)
                             (autoPayCeiling (example_config None))),
                   [EvFetch \<lparr>url = ?u, init = None\<rparr>])
         else take 2 (snd (handler_fetch dec_ops (example_config None)
                             (example_env [Resolved ?resp]) [] ?u None))
                = [EvFetch \<lparr>url = ?u, init = None\<rparr>,
                   EvPay (handler_payment dec_ops (example_config None) ?u ?terms)]"
    by blast
  have le: "\<not> num_gt dec_ops (amountUsd dec_ops ?terms)
              (str_toNumber dec_ops (autoPayCeiling (example_config None)))"
    by (simp add: amountUsd_def autoPayCeiling_def example_config_def dec_eval)
  have pay: "handler_payment dec_ops (example_config None) ?u ?terms
      = \<lparr>resource = ?u, amount = ''0.000000'', payTo = [], tokenContract = None,
         network = None\<rparr>"
    by (simp add: handler_payment_def amountUsd_def example_config_def dec_eval)
  from pa go le pay show ?thesis by simp
qed

text \<open>
  C10 as the claim states it fails when the key is there with a falsy value: for the body
  \<open>{"paymentRequirements": null}\<close> nothing is extracted, and the interceptor returns the
  original response and invokes no payment.
\<close>

theorem payment_requirements_null_counterexample:
  "js_prop (JObj [(''paymentRequirements'', JNull)] :: real option json) ''paymentRequirements''
     = Some JNull
   \<and> handler_fetch dec_ops (example_config None)
        (example_env [Resolved (json_response 402 []
           (JObj [(''paymentRequirements'', JNull)]))])
        [] ''https://api.example.com/data'' None
      = (Returned (json_response 402 [] (JObj [(''paymentRequirements'', JNull)])),
         [EvFetch \<lparr>url = ''https://api.example.com/data'', init = None\<rparr>])"
  by (simp add: handler_fetch_def parse402Response_def json_response_def example_env_def
      scripted_def js_get_def headers_get_def)

end
